theory Spec2Isabelle
  imports Complex_Main
begin

section \<open>Fraud detection backend (backend/main.py)\<close>

text \<open>
  A shallow embedding of the request handlers of \<^verbatim>\<open>backend/main.py\<close>.
  A Python float is a finite double, and every finite double is a real number: float
  values have type \<open>real\<close>, Python integers type \<open>int\<close>. The operations on floats
  are not the operations on reals: each rounds its result to a double. Where the source
  computes with floats and a result decides what the program does next (the domain check
  of \<^verbatim>\<open>math.sqrt\<close> in \<^verbatim>\<open>haversine\<close>, the integer risk score), the model takes
  the arithmetic as an argument \<open>fp\<close>, a record of the rounding function and of the
  functions of the C library. Infinities, NaN and overflow are outside the model.
  Float values that decide no outcome are written as the source writes them: the
  decimal literals stand for themselves, and the offset of 0.01 in the merchant fallback
  is an exact sum.
  The classifier, the lookup tables and the clock are inputs of the handlers too:
  the global variables of the module form the record \<open>server_state\<close>, and
  \<^verbatim>\<open>datetime.now()\<close> is the argument \<open>now\<close>.
\<close>

subsection \<open>Values, errors and library functions\<close>

text \<open>Exceptions of the Python library that the handlers do not catch.\<close>

datatype py_exception = ValueError | IndexError

text \<open>
  What a route answers instead of a body: the \<^verbatim>\<open>HTTPException\<close> the handler raises
  (status code and detail), the validation error of the request model (one entry per
  offending field: field name and error kind), or an uncaught exception.
\<close>

datatype error =
    HTTPException nat string
  | RequestValidationError "(string \<times> string) list"
  | InternalServerError py_exception

fun status_code :: "error \<Rightarrow> nat" where
  "status_code (HTTPException c d) = c"
| "status_code (RequestValidationError errs) = 422"
| "status_code (InternalServerError e) = 500"

text \<open>A cell of the single-row data frame handed to the classifier.\<close>

datatype pyval = PyStr string | PyFloat real | PyInt int

type_synonym feature_row = "(string \<times> pyval) list"
type_synonym DataFrame = "feature_row list"

text \<open>
  The classifier is opaque: it is represented by its \<^verbatim>\<open>predict_proba\<close> method, which maps
  a data frame to one list of class probabilities per row.
\<close>

type_synonym CatBoostClassifier = "DataFrame \<Rightarrow> real list list"

text \<open>\<^verbatim>\<open>xs[i]\<close> for a non-negative index: out of range raises \<^verbatim>\<open>IndexError\<close>.\<close>

definition getitem :: "'a list \<Rightarrow> nat \<Rightarrow> py_exception + 'a" where
  "getitem xs i = (if i < length xs then Inr (xs ! i) else Inl IndexError)"

text \<open>\<^verbatim>\<open>round(x)\<close>: to the nearest integer, a tie to the even neighbour.\<close>

definition py_round :: "real \<Rightarrow> int" where
  "py_round x =
     (let f = \<lfloor>x\<rfloor>; d = x - of_int f
      in if d < 1 / 2 then f
         else if 1 / 2 < d then f + 1
         else if even f then f else f + 1)"

text \<open>\<^verbatim>\<open>int(x)\<close> of a number: truncation towards zero.\<close>

definition py_int :: "real \<Rightarrow> int" where
  "py_int x = (if 0 \<le> x then \<lfloor>x\<rfloor> else \<lceil>x\<rceil>)"

subsection \<open>Float arithmetic\<close>

text \<open>
  The arithmetic of doubles. \<open>rnd\<close> maps the exact result of an operation to the
  double that represents it; addition, subtraction, multiplication, division and square
  root are the exact operation followed by \<open>rnd\<close>, as IEEE 754 defines them. The
  functions of the C library that the source calls (\<^verbatim>\<open>sin\<close>, \<^verbatim>\<open>cos\<close>,
  \<^verbatim>\<open>atan2\<close>, and \<^verbatim>\<open>pow\<close> behind \<^verbatim>\<open>**\<close>) carry no such guarantee and are
  fields of their own.
\<close>

record float_arith =
  rnd :: "real \<Rightarrow> real"
  libm_sin :: "real \<Rightarrow> real"
  libm_cos :: "real \<Rightarrow> real"
  libm_atan2 :: "real \<Rightarrow> real \<Rightarrow> real"
  libm_pow :: "real \<Rightarrow> real \<Rightarrow> real"

definition f_add :: "float_arith \<Rightarrow> real \<Rightarrow> real \<Rightarrow> real" where
  "f_add fp x y = rnd fp (x + y)"

definition f_sub :: "float_arith \<Rightarrow> real \<Rightarrow> real \<Rightarrow> real" where
  "f_sub fp x y = rnd fp (x - y)"

definition f_mul :: "float_arith \<Rightarrow> real \<Rightarrow> real \<Rightarrow> real" where
  "f_mul fp x y = rnd fp (x * y)"

definition f_div :: "float_arith \<Rightarrow> real \<Rightarrow> real \<Rightarrow> real" where
  "f_div fp x y = rnd fp (x / y)"

text \<open>\<^verbatim>\<open>round(x, n)\<close> of a numpy double, \<open>n\<close> not negative: the product with
  \<open>10\<^sup>n\<close>, rounded to an integer, divided by \<open>10\<^sup>n\<close>, each step in doubles.\<close>

definition py_round_ndigits :: "float_arith \<Rightarrow> real \<Rightarrow> nat \<Rightarrow> real" where
  "py_round_ndigits fp x n = f_div fp (of_int (py_round (f_mul fp x (10 ^ n)))) (10 ^ n)"

text \<open>\<^verbatim>\<open>math.radians\<close> (the product with the double constant \<open>pi / 180\<close>),
  \<^verbatim>\<open>math.sqrt\<close> (a negative argument raises \<^verbatim>\<open>ValueError\<close>: math domain
  error).\<close>

definition radians :: "float_arith \<Rightarrow> real \<Rightarrow> real" where
  "radians fp x = f_mul fp x (f_div fp (rnd fp pi) 180)"

definition math_sqrt :: "float_arith \<Rightarrow> real \<Rightarrow> py_exception + real" where
  "math_sqrt fp x = (if x < 0 then Inl ValueError else Inr (rnd fp (sqrt x)))"

text \<open>The two-argument arctangent on the reals.\<close>

definition atan2 :: "real \<Rightarrow> real \<Rightarrow> real" where
  "atan2 y x =
     (if 0 < x then arctan (y / x)
      else if x < 0 then (if 0 \<le> y then arctan (y / x) + pi else arctan (y / x) - pi)
      else if 0 < y then pi / 2
      else if y < 0 then - (pi / 2)
      else 0)"

text \<open>Exact arithmetic: nothing is rounded. It is the arithmetic in which the
  formulas of the source mean what they say.\<close>

definition exact_arith :: float_arith where
  "exact_arith =
     \<lparr>rnd = (\<lambda>x. x), libm_sin = sin, libm_cos = cos, libm_atan2 = atan2,
      libm_pow = (\<lambda>x y. if y = 2 then x\<^sup>2 else x powr y)\<rparr>"


text \<open>
  Rounding to the nearest double, ties to the even significand: the binade of a number
  is the exponent of the power of two at or below it, not less than that of the
  smallest normal double; the doubles of a binade are 52 binary places apart. The
  exponent has no upper limit here (no overflow).
\<close>

definition binade :: "real \<Rightarrow> int" where
  "binade x = max \<lfloor>log 2 \<bar>x\<bar>\<rfloor> (- 1022)"

definition ulp :: "real \<Rightarrow> real" where
  "ulp x = 2 powr of_int (binade x - 52)"

definition binary64_rnd :: "real \<Rightarrow> real" where
  "binary64_rnd x = (if x = 0 then 0 else of_int (py_round (x / ulp x)) * ulp x)"

text \<open>Double arithmetic with a C library that rounds correctly: an idealisation of
  the library, whose functions may in fact be off by a unit in the last place.\<close>

definition binary64_arith :: float_arith where
  "binary64_arith =
     \<lparr>rnd = binary64_rnd,
      libm_sin = (\<lambda>x. binary64_rnd (sin x)),
      libm_cos = (\<lambda>x. binary64_rnd (cos x)),
      libm_atan2 = (\<lambda>y x. binary64_rnd (atan2 y x)),
      libm_pow = (\<lambda>x y. binary64_rnd (if y = 2 then x\<^sup>2 else x powr y))\<rparr>"

text \<open>
  What the theorems below ask of the rounding function, each true of rounding to the
  nearest double: the result is at least as close to the argument as any number that is
  rounded to itself; integers and halves of integers up to \<open>2\<^sup>5\<^sup>3\<close> in magnitude are
  rounded to themselves; the relative error is at most \<open>2\<^sup>-\<^sup>5\<^sup>3\<close>, or the absolute
  error at most \<open>2\<^sup>-\<^sup>1\<^sup>0\<^sup>7\<^sup>5\<close> for the smallest numbers.
\<close>

definition round_to_nearest :: "(real \<Rightarrow> real) \<Rightarrow> bool" where
  "round_to_nearest r \<longleftrightarrow>
     (\<forall>x d. r d = d \<longrightarrow> \<bar>r x - x\<bar> \<le> \<bar>d - x\<bar>)
     \<and> (\<forall>k::int. \<bar>k\<bar> \<le> 2 ^ 53 \<longrightarrow> r (of_int k / 2) = of_int k / 2)
     \<and> (\<forall>x. \<bar>r x - x\<bar> \<le> \<bar>x\<bar> / 2 ^ 53 + 1 / 2 ^ 1075)"

text \<open>
  What the theorems below ask of the signs: rounding, the sine and the square commute
  with negation as far as the source needs it, and the functions are exact at the
  arguments 0 and 1 shown.
\<close>

definition sign_symmetric :: "float_arith \<Rightarrow> bool" where
  "sign_symmetric fp \<longleftrightarrow>
     rnd fp 0 = 0 \<and> rnd fp 1 = 1
     \<and> (\<forall>x. rnd fp (- x) = - rnd fp x)
     \<and> libm_sin fp 0 = 0
     \<and> (\<forall>x. libm_sin fp (- x) = - libm_sin fp x)
     \<and> libm_pow fp 0 2 = 0
     \<and> (\<forall>x. libm_pow fp (- x) 2 = libm_pow fp x 2)
     \<and> libm_atan2 fp 0 1 = 0"

subsection \<open>Global state populated at startup (lines 40-45)\<close>

record city_info =
  ci_lat :: real
  ci_long :: real
  ci_state :: string
  ci_zip :: real
  ci_city_pop :: real

record merch_info =
  mi_merch_lat :: real
  mi_merch_long :: real

record server_state =
  model :: "CatBoostClassifier option"
  city_lookup :: "string \<rightharpoonup> city_info"
  merchant_lookup :: "string \<rightharpoonup> merch_info"
  available_merchants :: "string list"
  available_categories :: "string list"
  available_cities :: "string list"

text \<open>The module's globals before the startup hook has run.\<close>

definition initial_state :: server_state where
  "initial_state =
     \<lparr>model = None, city_lookup = Map.empty, merchant_lookup = Map.empty,
      available_merchants = [], available_categories = [], available_cities = []\<rparr>"

subsection \<open>Helpers (lines 99-107)\<close>

text \<open>The value of the local variable \<^verbatim>\<open>a\<close> of \<^verbatim>\<open>haversine\<close> (lines 102-105),
  as the float operations compute it.\<close>

definition haversine_a :: "float_arith \<Rightarrow> real \<Rightarrow> real \<Rightarrow> real \<Rightarrow> real \<Rightarrow> real" where
  "haversine_a fp lat1 lon1 lat2 lon2 =
     (let lat1 = radians fp lat1; lon1 = radians fp lon1;
          lat2 = radians fp lat2; lon2 = radians fp lon2;
          dlat = f_sub fp lat2 lat1;
          dlon = f_sub fp lon2 lon1
      in f_add fp (libm_pow fp (libm_sin fp (f_div fp dlat 2)) 2)
           (f_mul fp (f_mul fp (libm_cos fp lat1) (libm_cos fp lat2))
              (libm_pow fp (libm_sin fp (f_div fp dlon 2)) 2)))"

definition haversine ::
  "float_arith \<Rightarrow> real \<Rightarrow> real \<Rightarrow> real \<Rightarrow> real \<Rightarrow> py_exception + real" where
  "haversine fp lat1 lon1 lat2 lon2 =
     (let R = 6371;
          a = haversine_a fp lat1 lon1 lat2 lon2
      in case math_sqrt fp a of
           Inl e \<Rightarrow> Inl e
         | Inr sa \<Rightarrow>
             (case math_sqrt fp (f_sub fp 1 a) of
                Inl e \<Rightarrow> Inl e
              | Inr sb \<Rightarrow> Inr (f_mul fp R (f_mul fp 2 (libm_atan2 fp sa sb)))))"

subsection \<open>Schemas (lines 113-124)\<close>

record TransactionRequest =
  amount :: real
  merchant :: string
  category :: string
  city :: string

record PredictionResponse =
  risk_score :: int
  probability :: real
  risk_level :: string
  decision :: string

text \<open>
  The JSON body of a request before validation: each of the four members may be missing.
  A member that is present is taken to have the JSON type of its field (a number for
  \<^verbatim>\<open>amount\<close>, a string for the others).
\<close>

record payload =
  p_amount :: "real option"
  p_merchant :: "string option"
  p_category :: "string option"
  p_city :: "string option"

text \<open>\<^verbatim>\<open>Field(..., gt=0)\<close>: the member is required and must exceed 0.\<close>

definition field_amount :: "real option \<Rightarrow> (string \<times> string) list" where
  "field_amount v =
     (case v of
        None \<Rightarrow> [(''amount'', ''missing'')]
      | Some a \<Rightarrow> if 0 < a then [] else [(''amount'', ''greater_than'')])"

text \<open>\<^verbatim>\<open>Field(...)\<close> on a \<^verbatim>\<open>str\<close>: the member is required; nothing else is asked.\<close>

definition field_str :: "string \<Rightarrow> string option \<Rightarrow> (string \<times> string) list" where
  "field_str name v = (case v of None \<Rightarrow> [(name, ''missing'')] | Some s \<Rightarrow> [])"

text \<open>Validation of the body against \<^verbatim>\<open>TransactionRequest\<close>: the errors of all fields
  are collected, and the request object exists only when there is none.\<close>

definition validate :: "payload \<Rightarrow> error + TransactionRequest" where
  "validate p =
     (let errs = field_amount (p_amount p) @ field_str ''merchant'' (p_merchant p)
                 @ field_str ''category'' (p_category p) @ field_str ''city'' (p_city p)
      in case (p_amount p, p_merchant p, p_category p, p_city p) of
           (Some a, Some m, Some c, Some ct) \<Rightarrow>
             if errs = [] then Inr \<lparr>amount = a, merchant = m, category = c, city = ct\<rparr>
             else Inl (RequestValidationError errs)
         | _ \<Rightarrow> Inl (RequestValidationError errs))"

subsection \<open>Routes (lines 130-230)\<close>

record health_response =
  status :: string
  model_loaded :: bool

definition health :: "server_state \<Rightarrow> health_response" where
  "health st = \<lparr>status = ''ok'', model_loaded = (model st \<noteq> None)\<rparr>"

text \<open>The current time as the handler reads it: \<^verbatim>\<open>now.hour\<close>, \<^verbatim>\<open>now.day\<close>,
  \<^verbatim>\<open>now.month\<close> and \<^verbatim>\<open>now.weekday()\<close> (0 is Monday).\<close>

record datetime =
  dt_hour :: int
  dt_day :: int
  dt_month :: int
  dt_weekday :: int

text \<open>City resolution (lines 152-161).\<close>

definition resolve_city ::
  "(string \<rightharpoonup> city_info) \<Rightarrow> string \<Rightarrow> real \<times> real \<times> string \<times> int \<times> real" where
  "resolve_city lookup c =
     (case lookup c of
        None \<Rightarrow> (39.8283, - 98.5795, ''KS'', 66101, 50000)
      | Some city_info \<Rightarrow>
          (ci_lat city_info, ci_long city_info, ci_state city_info,
           py_int (ci_zip city_info), ci_city_pop city_info))"

text \<open>Merchant resolution (lines 163-168).\<close>

definition resolve_merchant ::
  "(string \<rightharpoonup> merch_info) \<Rightarrow> string \<Rightarrow> real \<Rightarrow> real \<Rightarrow> real \<times> real" where
  "resolve_merchant lookup m lat lon =
     (case lookup m of
        None \<Rightarrow> (lat + 0.01, lon + 0.01)
      | Some merch_info \<Rightarrow> (mi_merch_lat merch_info, mi_merch_long merch_info))"

text \<open>The feature dictionary (lines 186-207); a Python dictionary keeps its keys in the
  order of insertion, which is the column order of the data frame built from it.\<close>

definition feature_dict ::
  "TransactionRequest \<Rightarrow> string \<Rightarrow> int \<Rightarrow> real \<Rightarrow> real \<Rightarrow> real \<Rightarrow> real \<Rightarrow> real \<Rightarrow>
   int \<Rightarrow> int \<Rightarrow> int \<Rightarrow> int \<Rightarrow> int \<Rightarrow> int \<Rightarrow> real \<Rightarrow> feature_row" where
  "feature_dict txn state zipcode lat lon city_pop merch_lat merch_long
                hour day month weekday is_weekend age distance =
     [(''merchant'',   PyStr (merchant txn)),
      (''category'',   PyStr (category txn)),
      (''amt'',        PyFloat (amount txn)),
      (''gender'',     PyStr ''M''),
      (''city'',       PyStr (city txn)),
      (''state'',      PyStr state),
      (''zip'',        PyInt zipcode),
      (''lat'',        PyFloat lat),
      (''long'',       PyFloat lon),
      (''city_pop'',   PyInt (py_int city_pop)),
      (''job'',        PyStr ''Software Engineer''),
      (''merch_lat'',  PyFloat merch_lat),
      (''merch_long'', PyFloat merch_long),
      (''hour'',       PyInt hour),
      (''day'',        PyInt day),
      (''month'',      PyInt month),
      (''weekday'',    PyInt weekday),
      (''is_weekend'', PyInt is_weekend),
      (''age'',        PyInt age),
      (''distance'',   PyFloat distance)]"

text \<open>Risk level and decision of a risk score (lines 215-223).\<close>

definition risk_bucket :: "int \<Rightarrow> string \<times> string" where
  "risk_bucket score =
     (if 70 \<le> score then (''High'', ''Block'')
      else if 40 \<le> score then (''Medium'', ''Require OTP'')
      else (''Low'', ''Approve''))"

text \<open>\<^verbatim>\<open>model.predict_proba(df_input)[0][1]\<close>.\<close>

definition fraud_proba :: "real list list \<Rightarrow> py_exception + real" where
  "fraud_proba out =
     (case getitem out 0 of Inl e \<Rightarrow> Inl e | Inr row \<Rightarrow> getitem row 1)"

text \<open>Lines 151-207 of the handler: lookups, time features, derived features and the
  feature dictionary. The only step that can raise is the distance.\<close>

definition build_features ::
  "float_arith \<Rightarrow> server_state \<Rightarrow> datetime \<Rightarrow> TransactionRequest \<Rightarrow>
   py_exception + feature_row" where
  "build_features fp st now txn =
     (let (lat, lon, state, zipcode, city_pop) = resolve_city (city_lookup st) (city txn);
          (merch_lat, merch_long) =
             resolve_merchant (merchant_lookup st) (merchant txn) lat lon;
          hour = dt_hour now;
          day = dt_day now;
          month = dt_month now;
          weekday = dt_weekday now;
          is_weekend = (if 5 \<le> weekday then 1 else 0);
          age = 35
      in case haversine fp lat lon merch_lat merch_long of
           Inl e \<Rightarrow> Inl e
         | Inr distance \<Rightarrow>
             Inr (feature_dict txn state zipcode lat lon city_pop merch_lat merch_long
                    hour day month weekday is_weekend age distance))"

text \<open>Lines 213-230: the response computed from the fraud probability, a numpy
  double: the product with 100 is a double, and \<^verbatim>\<open>round\<close> of it is exact.\<close>

definition score_response :: "float_arith \<Rightarrow> real \<Rightarrow> PredictionResponse" where
  "score_response fp proba =
     (let score = py_round (f_mul fp proba 100);
          (level, verdict) = risk_bucket score
      in \<lparr>risk_score = score,
          probability = py_round_ndigits fp proba 4,
          risk_level = level,
          decision = verdict\<rparr>)"

text \<open>
  The handler of \<^verbatim>\<open>POST /predict\<close> on a validated request. Besides its answer it returns
  the data frames it has passed to the classifier, in order: the empty list means that
  the classifier was not invoked. An exception the handler does not catch becomes an
  internal server error.
\<close>

definition predict ::
  "float_arith \<Rightarrow> server_state \<Rightarrow> datetime \<Rightarrow> TransactionRequest \<Rightarrow>
   (error + PredictionResponse) \<times> DataFrame list" where
  "predict fp st now txn =
     (case model st of
        None \<Rightarrow> (Inl (HTTPException 503 ''Model not loaded yet''), [])
      | Some clf \<Rightarrow>
          (case build_features fp st now txn of
             Inl e \<Rightarrow> (Inl (InternalServerError e), [])
           | Inr features \<Rightarrow>
               (let df_input = [features]
                in case fraud_proba (clf df_input) of
                     Inl e \<Rightarrow> (Inl (InternalServerError e), [df_input])
                   | Inr proba \<Rightarrow> (Inr (score_response fp proba), [df_input]))))"

text \<open>The route: the framework validates the body first and calls the handler only with
  a request object.\<close>

definition post_predict ::
  "float_arith \<Rightarrow> server_state \<Rightarrow> datetime \<Rightarrow> payload \<Rightarrow>
   (error + PredictionResponse) \<times> DataFrame list" where
  "post_predict fp st now body =
     (case validate body of
        Inl e \<Rightarrow> (Inl e, [])
      | Inr txn \<Rightarrow> predict fp st now txn)"

subsection \<open>Sample inputs\<close>

text \<open>A classifier that answers the fraud probability \<open>p\<close> for every row, a state as
  the startup hook could leave it, a time, four requests (city and merchant in the
  lookup tables; neither in them; only the city in them; a merchant at the coordinates
  of its city) and four request bodies.\<close>

definition const_clf :: "real \<Rightarrow> CatBoostClassifier" where
  "const_clf p = (\<lambda>df. map (\<lambda>row. [1 - p, p]) df)"

definition sample_state :: "real \<Rightarrow> server_state" where
  "sample_state p =
     \<lparr>model = Some (const_clf p),
      city_lookup = [''Columbia'' \<mapsto>
         \<lparr>ci_lat = 34, ci_long = - 81, ci_state = ''SC'', ci_zip = 29209,
          ci_city_pop = 333497\<rparr>],
      merchant_lookup = [''fraud_Kirlin and Sons'' \<mapsto>
         \<lparr>mi_merch_lat = 34.5, mi_merch_long = - 80.5\<rparr>,
         ''Main Street Deli'' \<mapsto> \<lparr>mi_merch_lat = 34, mi_merch_long = - 81\<rparr>],
      available_merchants = [''Main Street Deli'', ''fraud_Kirlin and Sons''],
      available_categories = [''personal_care''],
      available_cities = [''Columbia'']\<rparr>"

definition sample_now :: datetime where
  "sample_now = \<lparr>dt_hour = 14, dt_day = 3, dt_month = 11, dt_weekday = 1\<rparr>"

definition known_txn :: TransactionRequest where
  "known_txn = \<lparr>amount = 2.86, merchant = ''fraud_Kirlin and Sons'',
                 category = ''personal_care'', city = ''Columbia''\<rparr>"

definition unknown_txn :: TransactionRequest where
  "unknown_txn = \<lparr>amount = 120, merchant = ''Corner Shop'',
                   category = ''grocery_pos'', city = ''Atlantis''\<rparr>"

definition colocated_txn :: TransactionRequest where
  "colocated_txn = \<lparr>amount = 12.5, merchant = ''Main Street Deli'',
                     category = ''personal_care'', city = ''Columbia''\<rparr>"

text \<open>The doubles that the literals 0.695 and 0.005 denote.\<close>

definition double_0695 :: real where
  "double_0695 = 6260003482044989 / 2 ^ 53"

definition double_0005 :: real where
  "double_0005 = 5764607523034235 / 2 ^ 60"

definition new_merchant_txn :: TransactionRequest where
  "new_merchant_txn = \<lparr>amount = 40, merchant = ''Corner Shop'',
                        category = ''grocery_pos'', city = ''Columbia''\<rparr>"

definition empty_merchant_body :: payload where
  "empty_merchant_body =
     \<lparr>p_amount = Some 120, p_merchant = Some '''', p_category = Some ''grocery_pos'',
      p_city = Some ''Columbia''\<rparr>"

definition no_merchant_body :: payload where
  "no_merchant_body =
     \<lparr>p_amount = Some 120, p_merchant = None, p_category = Some ''grocery_pos'',
      p_city = Some ''Columbia''\<rparr>"

definition refund_body :: payload where
  "refund_body =
     \<lparr>p_amount = Some (- 5), p_merchant = Some ''fraud_Kirlin and Sons'',
      p_category = Some ''personal_care'', p_city = Some ''Columbia''\<rparr>"

definition known_body :: payload where
  "known_body =
     \<lparr>p_amount = Some 2.86, p_merchant = Some ''fraud_Kirlin and Sons'',
      p_category = Some ''personal_care'', p_city = Some ''Columbia''\<rparr>"

section \<open>Properties\<close>

subsection \<open>Exact arithmetic\<close>

lemma exact_ops:
  "f_add exact_arith x y = x + y" "f_sub exact_arith x y = x - y"
  "f_mul exact_arith x y = x * y" "f_div exact_arith x y = x / y"
  "rnd exact_arith x = x" "libm_sin exact_arith = sin" "libm_cos exact_arith = cos"
  "libm_atan2 exact_arith = atan2" "libm_pow exact_arith x 2 = x\<^sup>2"
  by (simp_all add: exact_arith_def f_add_def f_sub_def f_mul_def f_div_def)


lemma sign_symmetric_exact: "sign_symmetric exact_arith"
  by (simp add: sign_symmetric_def exact_arith_def atan2_def)

lemma cos_mult_half: "cos (x - y) * cos (x + y) = (cos x)\<^sup>2 - (sin y)\<^sup>2" for x y :: real
proof -
  have "cos (x - y) * cos (x + y) =
          (cos x * cos y + sin x * sin y) * (cos x * cos y - sin x * sin y)"
    by (simp only: cos_add cos_diff)
  also have "\<dots> = (cos x)\<^sup>2 * (cos y)\<^sup>2 - (sin x)\<^sup>2 * (sin y)\<^sup>2"
    by (simp only: power2_eq_square) (simp only: algebra_simps)
  also have "\<dots> = (cos x)\<^sup>2 * (1 - (sin y)\<^sup>2) - (1 - (cos x)\<^sup>2) * (sin y)\<^sup>2"
    by (simp only: cos_squared_eq [of y] sin_squared_eq [of x])
  also have "\<dots> = (cos x)\<^sup>2 - (sin y)\<^sup>2"
    by (simp add: algebra_simps)
  finally show ?thesis .
qed

lemma cos_mult_as_squares:
  "cos p * cos q = (cos ((p + q) / 2))\<^sup>2 - (sin ((q - p) / 2))\<^sup>2" for p q :: real
  using cos_mult_half [of "(p + q) / 2" "(q - p) / 2"]
  by (simp add: field_simps)

lemma sin_sq_le_one: "(sin x)\<^sup>2 \<le> 1" and cos_sq_le_one: "(cos x)\<^sup>2 \<le> 1" for x :: real
  using sin_cos_squared_add [of x] zero_le_power2 [of "sin x"] zero_le_power2 [of "cos x"]
  by linarith+

lemma convex_unit:
  fixes A B t :: real
  assumes "0 \<le> A" "A \<le> 1" "0 \<le> B" "B \<le> 1" "0 \<le> t" "t \<le> 1"
  shows "0 \<le> A + (B - A) * t \<and> A + (B - A) * t \<le> 1"
proof -
  have e: "A + (B - A) * t = (1 - t) * A + t * B" by (simp add: algebra_simps)
  have "0 \<le> (1 - t) * A" "0 \<le> t * B" using assms by simp_all
  moreover have "(1 - t) * A \<le> (1 - t) * 1" using assms by (intro mult_left_mono) simp_all
  moreover have "t * B \<le> t * 1" using assms by (intro mult_left_mono) simp_all
  ultimately show ?thesis unfolding e by simp
qed

lemma haversine_a_exact:
  "haversine_a exact_arith lat1 lon1 lat2 lon2 =
     (sin ((lat2 * (pi / 180) - lat1 * (pi / 180)) / 2))\<^sup>2
     + cos (lat1 * (pi / 180)) * cos (lat2 * (pi / 180))
       * (sin ((lon2 * (pi / 180) - lon1 * (pi / 180)) / 2))\<^sup>2"
  by (simp add: haversine_a_def radians_def exact_ops Let_def)

lemma haversine_a_exact_bounds:
  "0 \<le> haversine_a exact_arith lat1 lon1 lat2 lon2
   \<and> haversine_a exact_arith lat1 lon1 lat2 lon2 \<le> 1"
proof -
  define p q where "p = lat1 * (pi / 180)" and "q = lat2 * (pi / 180)"
  define A B t where "A = (sin ((q - p) / 2))\<^sup>2" and "B = (cos ((p + q) / 2))\<^sup>2"
    and "t = (sin ((lon2 * (pi / 180) - lon1 * (pi / 180)) / 2))\<^sup>2"
  have a: "haversine_a exact_arith lat1 lon1 lat2 lon2 = A + (B - A) * t"
    unfolding haversine_a_exact A_def B_def t_def p_def [symmetric] q_def [symmetric]
    by (simp add: cos_mult_as_squares)
  have "0 \<le> A" "0 \<le> B" "0 \<le> t" by (simp_all add: A_def B_def t_def)
  moreover have "A \<le> 1" "t \<le> 1" "B \<le> 1" unfolding A_def t_def B_def
    by (rule sin_sq_le_one cos_sq_le_one)+
  ultimately show ?thesis unfolding a by (intro convex_unit)
qed


lemma haversine_exact:
  "haversine exact_arith lat1 lon1 lat2 lon2 =
     Inr (6371 * (2 * atan2 (sqrt (haversine_a exact_arith lat1 lon1 lat2 lon2))
                            (sqrt (1 - haversine_a exact_arith lat1 lon1 lat2 lon2))))"
  using haversine_a_exact_bounds [of lat1 lon1 lat2 lon2]
  by (simp add: haversine_def math_sqrt_def Let_def exact_ops not_less [symmetric])


subsection \<open>The distance helper in float arithmetic\<close>


lemma haversine_a_same:
  assumes "sign_symmetric fp"
  shows "haversine_a fp lat lon lat lon = 0"
  using assms
  by (simp add: sign_symmetric_def haversine_a_def Let_def f_sub_def f_div_def f_mul_def
      f_add_def)

lemma haversine_a_sym:
  assumes "sign_symmetric fp"
  shows "haversine_a fp lat1 lon1 lat2 lon2 = haversine_a fp lat2 lon2 lat1 lon1"
proof -
  have n: "rnd fp (- x) = - rnd fp x" "libm_sin fp (- x) = - libm_sin fp x"
    "libm_pow fp (- x) 2 = libm_pow fp x 2" for x
    using assms by (simp_all add: sign_symmetric_def)
  have s: "libm_pow fp (libm_sin fp (f_div fp (f_sub fp x y) 2)) 2
         = libm_pow fp (libm_sin fp (f_div fp (f_sub fp y x) 2)) 2" for x y
  proof -
    have "f_sub fp x y = - f_sub fp y x"
      using n(1) [of "y - x"] by (simp add: f_sub_def)
    then have "f_div fp (f_sub fp x y) 2 = - f_div fp (f_sub fp y x) 2"
      using n(1) [of "f_sub fp y x / 2"] by (simp add: f_div_def)
    then show ?thesis by (simp only: n(2) n(3))
  qed
  have c: "f_mul fp x y = f_mul fp y x" for x y
    by (simp add: f_mul_def mult.commute)
  show ?thesis
    unfolding haversine_a_def Let_def
    by (simp only: s [of "radians fp lat2" "radians fp lat1"]
          s [of "radians fp lon2" "radians fp lon1"]
          c [of "libm_cos fp (radians fp lat1)" "libm_cos fp (radians fp lat2)"])
qed

lemma haversine_same:
  assumes "sign_symmetric fp"
  shows "haversine fp lat lon lat lon = Inr 0"
proof -
  have z: "rnd fp 0 = 0" "rnd fp 1 = 1" "libm_atan2 fp 0 1 = 0"
    using assms by (simp_all add: sign_symmetric_def)
  show ?thesis
    by (simp add: haversine_def haversine_a_same [OF assms] math_sqrt_def f_sub_def f_mul_def z)
qed

text \<open>
  C9: the distance between a point and itself is 0, and the distance does not depend on
  the order of the two points (where one order raises, so does the other). This holds in
  every float arithmetic whose rounding, sine and square respect the sign, as those of
  doubles do.
\<close>

theorem haversine_identity_symmetry:
  assumes "sign_symmetric fp"
  shows "haversine fp lat lon lat lon = Inr 0
   \<and> haversine fp lat1 lon1 lat2 lon2 = haversine fp lat2 lon2 lat1 lon1"
proof
  show "haversine fp lat lon lat lon = Inr 0" by (rule haversine_same [OF assms])
  show "haversine fp lat1 lon1 lat2 lon2 = haversine fp lat2 lon2 lat1 lon1"
    unfolding haversine_def by (simp only: haversine_a_sym [OF assms, of lat1 lon1 lat2 lon2])
qed

theorem haversine_identity_symmetry_witness:
  "sign_symmetric exact_arith
   \<and> haversine exact_arith 34 (- 81) 34 (- 81) = Inr 0
   \<and> haversine exact_arith 34 (- 81) 34.5 (- 80.5) = haversine exact_arith 34.5 (- 80.5) 34 (- 81)"
  using haversine_identity_symmetry [OF sign_symmetric_exact, of 34 "- 81" 34 "- 81" "34.5" "- 80.5"]
    sign_symmetric_exact
  by (intro conjI) (simp_all only:)


subsection \<open>Rounding\<close>

lemma py_round_nearest: "\<bar>of_int (py_round x) - x\<bar> \<le> 1 / 2"
proof -
  have "of_int \<lfloor>x\<rfloor> \<le> x" "x < of_int \<lfloor>x\<rfloor> + 1" by linarith+
  then show ?thesis by (auto simp: py_round_def Let_def)
qed










text \<open>A product that is rounded onto a tie goes to the even neighbour: the double
  0.695 times 100 is the double 69.5 and scores 70, the double 0.005 times 100 is the
  double 0.5 and scores 0.\<close>

lemma py_round_ties: "py_round (139 / 2) = 70" "py_round (1 / 2) = 0"
  by (simp_all add: py_round_def Let_def)

lemma score_ties_to_even:
  "f_mul fp p 100 = 139 / 2 \<Longrightarrow> risk_score (score_response fp p) = 70"
  "f_mul fp p 100 = 1 / 2 \<Longrightarrow> risk_score (score_response fp p) = 0"
  by (simp_all only: score_response_def Let_def py_round_ties split: prod.splits)
    (simp_all add: risk_bucket_def)




subsection \<open>The prediction handler\<close>

text \<open>What the handler does once a classifier is loaded, by the outcome of the distance
  call.\<close>

lemma predict_loaded:
  assumes "model st = Some clf"
    and "resolve_city (city_lookup st) (city txn) = (lat, lon, state, zipcode, city_pop)"
    and "resolve_merchant (merchant_lookup st) (merchant txn) lat lon = (merch_lat, merch_long)"
  shows "predict fp st now txn =
     (case haversine fp lat lon merch_lat merch_long of
        Inl e \<Rightarrow> (Inl (InternalServerError e), [])
      | Inr distance \<Rightarrow>
          (let df_input = [feature_dict txn state zipcode lat lon city_pop merch_lat merch_long
                   (dt_hour now) (dt_day now) (dt_month now) (dt_weekday now)
                   (if 5 \<le> dt_weekday now then 1 else 0) 35 distance]
           in case fraud_proba (clf df_input) of
                Inl e \<Rightarrow> (Inl (InternalServerError e), [df_input])
              | Inr proba \<Rightarrow> (Inr (score_response fp proba), [df_input])))"
  using assms by (simp add: predict_def build_features_def Let_def split: sum.splits)

lemma predict_frames:
  assumes "model st = Some clf"
    and "resolve_city (city_lookup st) (city txn) = (lat, lon, state, zipcode, city_pop)"
    and "resolve_merchant (merchant_lookup st) (merchant txn) lat lon = (merch_lat, merch_long)"
  shows "case haversine fp lat lon merch_lat merch_long of
        Inl e \<Rightarrow> predict fp st now txn = (Inl (InternalServerError e), [])
      | Inr distance \<Rightarrow>
          snd (predict fp st now txn) =
            [[feature_dict txn state zipcode lat lon city_pop merch_lat merch_long
                   (dt_hour now) (dt_day now) (dt_month now) (dt_weekday now)
                   (if 5 \<le> dt_weekday now then 1 else 0) 35 distance]]"
  by (simp add: predict_loaded [OF assms] Let_def split: sum.splits)

lemma predict_scored:
  assumes "model st = Some clf" and "build_features fp st now txn = Inr row"
  shows "predict fp st now txn =
           (case fraud_proba (clf [row]) of
              Inl e \<Rightarrow> (Inl (InternalServerError e), [[row]])
            | Inr proba \<Rightarrow> (Inr (score_response fp proba), [[row]]))"
  using assms by (simp add: predict_def Let_def)

lemma build_features_exact_total: "\<exists>row. build_features exact_arith st now txn = Inr row"
  by (simp add: build_features_def haversine_exact Let_def split: prod.splits)

lemma fraud_proba_const: "fraud_proba (const_clf p [row]) = Inr p"
  by (simp add: fraud_proba_def const_clf_def getitem_def)

lemma sample_model: "model (sample_state p) = Some (const_clf p)"
  by (simp add: sample_state_def)

lemma predict_sample:
  "build_features fp (sample_state p) now txn = Inr row \<Longrightarrow>
     predict fp (sample_state p) now txn = (Inr (score_response fp p), [[row]])"
  by (simp add: predict_scored [OF sample_model] fraud_proba_const)

lemma predict_sample_fst:
  "fst (predict exact_arith (sample_state p) now txn) = Inr (score_response exact_arith p)"
proof -
  obtain row where "build_features exact_arith (sample_state p) now txn = Inr row"
    using build_features_exact_total by blast
  then show ?thesis by (simp add: predict_sample)
qed

lemma score_response_bucket:
  "(risk_level (score_response fp p), decision (score_response fp p))
     = risk_bucket (risk_score (score_response fp p))"
  by (simp add: score_response_def Let_def split: prod.splits)

lemma score_response_6951:
  "score_response exact_arith 0.6951 =
     \<lparr>risk_score = 70, probability = 0.6951, risk_level = ''High'', decision = ''Block''\<rparr>"
  by (simp add: score_response_def py_round_def py_round_ndigits_def risk_bucket_def Let_def
      exact_ops)

lemma score_response_25:
  "score_response exact_arith 0.25 =
     \<lparr>risk_score = 25, probability = 0.25, risk_level = ''Low'', decision = ''Approve''\<rparr>"
  by (simp add: score_response_def py_round_def py_round_ndigits_def risk_bucket_def Let_def
      exact_ops)

text \<open>
  C1: the risk level and decision of every response of \<^verbatim>\<open>predict\<close> are a function
  of its risk score alone: scores 0-39 give Low and Approve, 40-69 give Medium and
  Require OTP, 70-100 give High and Block; 39, 40, 69 and 70 fall in the Low, Medium,
  Medium and High buckets.
\<close>

theorem risk_bucketing:
  "(fst (predict fp st now txn) = Inr r \<longrightarrow>
      (risk_level r, decision r) = risk_bucket (risk_score r))
   \<and> (0 \<le> s \<and> s \<le> 39 \<longrightarrow> risk_bucket s = (''Low'', ''Approve''))
   \<and> (40 \<le> s \<and> s \<le> 69 \<longrightarrow> risk_bucket s = (''Medium'', ''Require OTP''))
   \<and> (70 \<le> s \<and> s \<le> 100 \<longrightarrow> risk_bucket s = (''High'', ''Block''))
   \<and> risk_bucket 39 = (''Low'', ''Approve'')
   \<and> risk_bucket 40 = (''Medium'', ''Require OTP'')
   \<and> risk_bucket 69 = (''Medium'', ''Require OTP'')
   \<and> risk_bucket 70 = (''High'', ''Block'')"
proof -
  have "(risk_level r, decision r) = risk_bucket (risk_score r)"
    if "fst (predict fp st now txn) = Inr r"
  proof -
    from that obtain p where "r = score_response fp p"
      by (auto simp: predict_def Let_def split: option.splits sum.splits)
    then show ?thesis by (simp only: score_response_bucket)
  qed
  then show ?thesis by (simp add: risk_bucket_def)
qed

theorem risk_bucketing_witness:
  "fst (predict exact_arith (sample_state 0.6951) sample_now known_txn)
     = Inr (score_response exact_arith 0.6951)
   \<and> (risk_level (score_response exact_arith 0.6951),
       decision (score_response exact_arith 0.6951))
       = risk_bucket (risk_score (score_response exact_arith 0.6951))
   \<and> risk_score (score_response exact_arith 0.6951) = 70
   \<and> (0::int) \<le> 25 \<and> (25::int) \<le> 39 \<and> risk_bucket 25 = (''Low'', ''Approve'')
   \<and> (40::int) \<le> 55 \<and> (55::int) \<le> 69 \<and> risk_bucket 55 = (''Medium'', ''Require OTP'')
   \<and> (70::int) \<le> 88 \<and> (88::int) \<le> 100 \<and> risk_bucket 88 = (''High'', ''Block'')"
proof -
  have h: "fst (predict exact_arith (sample_state 0.6951) sample_now known_txn)
             = Inr (score_response exact_arith 0.6951)"
    by (rule predict_sample_fst)
  note t = risk_bucketing [of exact_arith "sample_state 0.6951" sample_now known_txn
      "score_response exact_arith 0.6951"]
  have a: "(risk_level (score_response exact_arith 0.6951),
       decision (score_response exact_arith 0.6951))
       = risk_bucket (risk_score (score_response exact_arith 0.6951))"
    using t [of 0] h by blast
  have s: "risk_score (score_response exact_arith 0.6951) = 70"
    unfolding score_response_6951 by simp
  have n: "(0::int) \<le> 25 \<and> (25::int) \<le> 39" "(40::int) \<le> 55 \<and> (55::int) \<le> 69"
    "(70::int) \<le> 88 \<and> (88::int) \<le> 100" by simp_all
  have b: "risk_bucket 25 = (''Low'', ''Approve'')" using t [of 25] n(1) by blast
  have c: "risk_bucket 55 = (''Medium'', ''Require OTP'')" using t [of 55] n(2) by blast
  have d: "risk_bucket 88 = (''High'', ''Block'')" using t [of 88] n(3) by blast
  show ?thesis using h a s n b c d by blast
qed




subsection \<open>Request validation\<close>

lemma validate_rejected:
  "validate body = Inl e \<Longrightarrow> post_predict fp st now body = (Inl e, [])"
  by (simp add: post_predict_def)

lemma validate_accepts:
  assumes "p_amount body = Some a" "0 < a" "p_merchant body = Some m"
    "p_category body = Some c" "p_city body = Some ct"
  shows "validate body = Inr \<lparr>amount = a, merchant = m, category = c, city = ct\<rparr>"
  using assms by (simp add: validate_def field_amount_def field_str_def)

lemma validate_nonpositive:
  assumes "p_amount body = Some a" "a \<le> 0"
  shows "\<exists>errs. validate body = Inl (RequestValidationError errs)
           \<and> (''amount'', ''greater_than'') \<in> set errs"
  using assms
  by (auto simp: validate_def field_amount_def Let_def split: option.splits)

lemma validate_missing_str:
  assumes "p_merchant body = None \<or> p_category body = None \<or> p_city body = None"
  shows "\<exists>errs. validate body = Inl (RequestValidationError errs)"
  using assms
  by (auto simp: validate_def Let_def split: option.splits)

text \<open>
  C2 as stated does not hold: a body whose merchant is the empty string passes
  validation and is scored.
\<close>

theorem empty_string_accepted:
  "validate empty_merchant_body
     = Inr \<lparr>amount = 120, merchant = '''', category = ''grocery_pos'', city = ''Columbia''\<rparr>
   \<and> fst (post_predict exact_arith (sample_state 0.25) sample_now empty_merchant_body)
     = Inr \<lparr>risk_score = 25, probability = 0.25, risk_level = ''Low'', decision = ''Approve''\<rparr>"
proof -
  have v: "validate empty_merchant_body
     = Inr \<lparr>amount = 120, merchant = '''', category = ''grocery_pos'', city = ''Columbia''\<rparr>"
    by (simp add: validate_def field_amount_def field_str_def empty_merchant_body_def)
  have "fst (post_predict exact_arith (sample_state 0.25) sample_now empty_merchant_body)
          = Inr (score_response exact_arith 0.25)"
    by (simp only: post_predict_def v sum.case predict_sample_fst)
  then have "fst (post_predict exact_arith (sample_state 0.25) sample_now empty_merchant_body)
     = Inr \<lparr>risk_score = 25, probability = 0.25, risk_level = ''Low'', decision = ''Approve''\<rparr>"
    unfolding score_response_25 .
  with v show ?thesis by (rule conjI)
qed

text \<open>
  C2, amended: a body with all four members present and a positive amount passes
  validation whatever the three strings are, the empty string included, and goes on to
  the handler; a body in which merchant, category or city is missing is rejected with a
  validation error, and the classifier is not invoked.
\<close>

theorem string_fields_required:
  "(p_amount body = Some a \<and> 0 < a \<and> p_merchant body = Some m \<and> p_category body = Some c
      \<and> p_city body = Some ct \<longrightarrow>
      validate body = Inr \<lparr>amount = a, merchant = m, category = c, city = ct\<rparr>
      \<and> post_predict fp st now body
          = predict fp st now \<lparr>amount = a, merchant = m, category = c, city = ct\<rparr>)
   \<and> (p_merchant body = None \<or> p_category body = None \<or> p_city body = None \<longrightarrow>
      (\<exists>errs. post_predict fp st now body = (Inl (RequestValidationError errs), [])))"
proof (intro conjI impI)
  assume h: "p_amount body = Some a \<and> 0 < a \<and> p_merchant body = Some m
     \<and> p_category body = Some c \<and> p_city body = Some ct"
  then show v: "validate body = Inr \<lparr>amount = a, merchant = m, category = c, city = ct\<rparr>"
    by (simp add: validate_accepts)
  show "post_predict fp st now body
          = predict fp st now \<lparr>amount = a, merchant = m, category = c, city = ct\<rparr>"
    by (simp add: post_predict_def v)
next
  assume "p_merchant body = None \<or> p_category body = None \<or> p_city body = None"
  then obtain errs where "validate body = Inl (RequestValidationError errs)"
    using validate_missing_str by blast
  then show "\<exists>errs. post_predict fp st now body = (Inl (RequestValidationError errs), [])"
    by (simp add: validate_rejected)
qed

theorem string_fields_required_witness:
  "p_amount empty_merchant_body = Some 120 \<and> (0::real) < 120
   \<and> p_merchant empty_merchant_body = Some ''''
   \<and> p_category empty_merchant_body = Some ''grocery_pos''
   \<and> p_city empty_merchant_body = Some ''Columbia''
   \<and> validate empty_merchant_body
       = Inr \<lparr>amount = 120, merchant = '''', category = ''grocery_pos'', city = ''Columbia''\<rparr>
   \<and> p_merchant no_merchant_body = None
   \<and> (\<exists>errs. post_predict exact_arith (sample_state 0.25) sample_now no_merchant_body
          = (Inl (RequestValidationError errs), []))"
proof -
  have h: "p_amount empty_merchant_body = Some 120 \<and> (0::real) < 120
   \<and> p_merchant empty_merchant_body = Some ''''
   \<and> p_category empty_merchant_body = Some ''grocery_pos''
   \<and> p_city empty_merchant_body = Some ''Columbia''"
    by (simp add: empty_merchant_body_def)
  have n: "p_merchant no_merchant_body = None" by (simp add: no_merchant_body_def)
  have 1: "validate empty_merchant_body
       = Inr \<lparr>amount = 120, merchant = '''', category = ''grocery_pos'', city = ''Columbia''\<rparr>"
    using string_fields_required [of empty_merchant_body 120 "''''" "''grocery_pos''"
        "''Columbia''"] h by blast
  have 2: "\<exists>errs. post_predict exact_arith (sample_state 0.25) sample_now no_merchant_body
          = (Inl (RequestValidationError errs), [])"
    using string_fields_required [of no_merchant_body _ _ _ _ exact_arith "sample_state 0.25"
        sample_now] n
    by blast
  show ?thesis using h n 1 2 by blast
qed

text \<open>
  C3: a request whose amount is at most 0 is answered with a validation error (status
  422) and the classifier is not invoked; an amount above 0 passes the validation of
  that field.
\<close>

theorem nonpositive_amount_rejected:
  "(p_amount body = Some a \<and> a \<le> 0 \<longrightarrow>
      (\<exists>errs. post_predict fp st now body = (Inl (RequestValidationError errs), [])
         \<and> (''amount'', ''greater_than'') \<in> set errs
         \<and> status_code (RequestValidationError errs) = 422))
   \<and> (0 < a \<longrightarrow> field_amount (Some a) = [])"
proof (intro conjI impI)
  assume "p_amount body = Some a \<and> a \<le> 0"
  then obtain errs where "validate body = Inl (RequestValidationError errs)"
    "(''amount'', ''greater_than'') \<in> set errs"
    using validate_nonpositive by blast
  then show "\<exists>errs. post_predict fp st now body = (Inl (RequestValidationError errs), [])
         \<and> (''amount'', ''greater_than'') \<in> set errs
         \<and> status_code (RequestValidationError errs) = 422"
    by (auto simp: validate_rejected)
next
  assume "0 < a"
  then show "field_amount (Some a) = []" by (simp add: field_amount_def)
qed

theorem nonpositive_amount_rejected_witness:
  "p_amount refund_body = Some (- 5) \<and> (- 5 :: real) \<le> 0
   \<and> post_predict exact_arith (sample_state 0.25) sample_now refund_body
       = (Inl (RequestValidationError [(''amount'', ''greater_than'')]), [])
   \<and> (0::real) < 2.86 \<and> field_amount (Some 2.86) = []"
proof -
  have h: "p_amount refund_body = Some (- 5) \<and> (- 5 :: real) \<le> 0"
    by (simp add: refund_body_def)
  have v: "validate refund_body = Inl (RequestValidationError [(''amount'', ''greater_than'')])"
    by (simp add: validate_def field_amount_def field_str_def refund_body_def)
  obtain errs where
    "post_predict exact_arith (sample_state 0.25) sample_now refund_body
       = (Inl (RequestValidationError errs), [])"
    using nonpositive_amount_rejected [of refund_body "- 5" exact_arith "sample_state 0.25"
        sample_now] h
    by blast
  then have 1: "post_predict exact_arith (sample_state 0.25) sample_now refund_body
       = (Inl (RequestValidationError [(''amount'', ''greater_than'')]), [])"
    by (simp add: post_predict_def v)
  have p: "(0::real) < 2.86" by simp
  have 2: "field_amount (Some 2.86) = []"
    using nonpositive_amount_rejected [of refund_body "2.86"] p by blast
  show ?thesis using h 1 p 2 by blast
qed

subsection \<open>The model guard and the health route\<close>

text \<open>
  C8: while no classifier is loaded, the handler answers every request with the error of
  status 503 and detail "Model not loaded yet", without a prediction, and so does the
  route for every body that passes validation; the health operation answers status "ok"
  with \<^verbatim>\<open>model_loaded\<close> false exactly when no classifier is loaded.
\<close>

theorem model_guard_and_health:
  "(model st = None \<longrightarrow>
      predict fp st now txn = (Inl (HTTPException 503 ''Model not loaded yet''), [])
      \<and> status_code (HTTPException 503 ''Model not loaded yet'') = 503)
   \<and> (model st = None \<and> validate body = Inr txn \<longrightarrow>
      post_predict fp st now body = (Inl (HTTPException 503 ''Model not loaded yet''), []))
   \<and> status (health st) = ''ok''
   \<and> (model st = None \<longrightarrow> model_loaded (health st) = False)
   \<and> (model st = Some clf \<longrightarrow> model_loaded (health st) = True)
   \<and> (model_loaded (health st) = False \<longrightarrow> model st = None)"
  by (simp add: predict_def post_predict_def health_def)

theorem model_guard_and_health_witness:
  "model initial_state = None
   \<and> predict exact_arith initial_state sample_now known_txn
       = (Inl (HTTPException 503 ''Model not loaded yet''), [])
   \<and> validate known_body = Inr known_txn
   \<and> post_predict exact_arith initial_state sample_now known_body
       = (Inl (HTTPException 503 ''Model not loaded yet''), [])
   \<and> health initial_state = \<lparr>status = ''ok'', model_loaded = False\<rparr>
   \<and> model (sample_state 0.25) = Some (const_clf 0.25)
   \<and> health (sample_state 0.25) = \<lparr>status = ''ok'', model_loaded = True\<rparr>"
proof -
  have i: "model initial_state = None" by (simp add: initial_state_def)
  have s: "model (sample_state 0.25) = Some (const_clf 0.25)" by (rule sample_model)
  have v: "validate known_body = Inr known_txn"
    by (simp add: validate_def field_amount_def field_str_def known_body_def known_txn_def)
  note t0 = model_guard_and_health [of initial_state exact_arith sample_now known_txn known_body]
  note t1 = model_guard_and_health [of "sample_state 0.25" _ _ _ _ "const_clf 0.25"]
  have 1: "predict exact_arith initial_state sample_now known_txn
       = (Inl (HTTPException 503 ''Model not loaded yet''), [])"
    using t0 i by blast
  have 2: "post_predict exact_arith initial_state sample_now known_body
       = (Inl (HTTPException 503 ''Model not loaded yet''), [])"
    using t0 i v by blast
  have 3: "status (health initial_state) = ''ok''" "model_loaded (health initial_state) = False"
    using t0 i by blast+
  have 4: "status (health (sample_state 0.25)) = ''ok''"
    "model_loaded (health (sample_state 0.25)) = True"
    using t1 s by blast+
  have e: "h = \<lparr>status = status h, model_loaded = model_loaded h\<rparr>" for h :: health_response
    by simp
  have 5: "health initial_state = \<lparr>status = ''ok'', model_loaded = False\<rparr>"
    using e [of "health initial_state"] unfolding 3 .
  have 6: "health (sample_state 0.25) = \<lparr>status = ''ok'', model_loaded = True\<rparr>"
    using e [of "health (sample_state 0.25)"] unfolding 4 .
  show ?thesis by (intro conjI i 1 v 2 5 s 6)
qed



subsection \<open>The feature row\<close>

lemma feature_dict_keys:
  "map fst (feature_dict txn state zipcode lat lon city_pop merch_lat merch_long
              hour day month weekday is_weekend age distance) =
     [''merchant'', ''category'', ''amt'', ''gender'', ''city'', ''state'', ''zip'', ''lat'',
      ''long'', ''city_pop'', ''job'', ''merch_lat'', ''merch_long'', ''hour'', ''day'',
      ''month'', ''weekday'', ''is_weekend'', ''age'', ''distance'']"
  by (simp add: feature_dict_def)

lemma feature_dict_values:
  "map snd (feature_dict txn state zipcode lat lon city_pop merch_lat merch_long
              hour day month weekday is_weekend age distance) =
     [PyStr (merchant txn), PyStr (category txn), PyFloat (amount txn), PyStr ''M'',
      PyStr (city txn), PyStr state, PyInt zipcode, PyFloat lat, PyFloat lon,
      PyInt (py_int city_pop), PyStr ''Software Engineer'', PyFloat merch_lat,
      PyFloat merch_long, PyInt hour, PyInt day, PyInt month, PyInt weekday,
      PyInt is_weekend, PyInt age, PyFloat distance]"
  by (simp add: feature_dict_def)

lemma feature_names_distinct:
  "distinct [''merchant'', ''category'', ''amt'', ''gender'', ''city'', ''state'', ''zip'', ''lat'',
      ''long'', ''city_pop'', ''job'', ''merch_lat'', ''merch_long'', ''hour'', ''day'',
      ''month'', ''weekday'', ''is_weekend'', ''age'', ''distance'']"
  by simp

lemma feature_dict_city:
  "map_of (feature_dict txn state zipcode lat lon city_pop merch_lat merch_long
              hour day month weekday is_weekend age distance) ''lat'' = Some (PyFloat lat)"
  "map_of (feature_dict txn state zipcode lat lon city_pop merch_lat merch_long
              hour day month weekday is_weekend age distance) ''long'' = Some (PyFloat lon)"
  "map_of (feature_dict txn state zipcode lat lon city_pop merch_lat merch_long
              hour day month weekday is_weekend age distance) ''state'' = Some (PyStr state)"
  "map_of (feature_dict txn state zipcode lat lon city_pop merch_lat merch_long
              hour day month weekday is_weekend age distance) ''zip'' = Some (PyInt zipcode)"
  "map_of (feature_dict txn state zipcode lat lon city_pop merch_lat merch_long
              hour day month weekday is_weekend age distance) ''city_pop''
     = Some (PyInt (py_int city_pop))"
  by (simp_all add: feature_dict_def)

lemma feature_dict_merchant:
  "map_of (feature_dict txn state zipcode lat lon city_pop merch_lat merch_long
              hour day month weekday is_weekend age distance) ''merch_lat''
     = Some (PyFloat merch_lat)"
  "map_of (feature_dict txn state zipcode lat lon city_pop merch_lat merch_long
              hour day month weekday is_weekend age distance) ''merch_long''
     = Some (PyFloat merch_long)"
  by (simp_all add: feature_dict_def)

lemma sample_city_known:
  "city_lookup (sample_state p) (city known_txn) =
     Some \<lparr>ci_lat = 34, ci_long = - 81, ci_state = ''SC'', ci_zip = 29209,
           ci_city_pop = 333497\<rparr>"
  "city_lookup (sample_state p) (city new_merchant_txn) =
     Some \<lparr>ci_lat = 34, ci_long = - 81, ci_state = ''SC'', ci_zip = 29209,
           ci_city_pop = 333497\<rparr>"
  by (simp_all add: sample_state_def known_txn_def new_merchant_txn_def)

lemma sample_city_unknown: "city_lookup (sample_state p) (city unknown_txn) = None"
  by (simp add: sample_state_def unknown_txn_def)

lemma sample_merchant_known:
  "merchant_lookup (sample_state p) (merchant known_txn) =
     Some \<lparr>mi_merch_lat = 34.5, mi_merch_long = - 80.5\<rparr>"
  by (simp add: sample_state_def known_txn_def)

lemma sample_merchant_unknown:
  "merchant_lookup (sample_state p) (merchant unknown_txn) = None"
  "merchant_lookup (sample_state p) (merchant new_merchant_txn) = None"
  by (simp_all add: sample_state_def unknown_txn_def new_merchant_txn_def)

text \<open>In exact arithmetic the distance call returns, so the case distinctions of the
  theorems below are decided.\<close>

lemma haversine_exact_returns:
  "\<exists>distance. haversine exact_arith lat1 lon1 lat2 lon2 = Inr distance"
  by (simp add: haversine_exact)

text \<open>
  C4: with a classifier loaded, either the distance call raises and the classifier is not
  invoked, or the handler passes the classifier exactly one data frame of one row with
  20 columns, in this order: merchant, category, amount (column \<^verbatim>\<open>amt\<close>), gender,
  city, state, zip, latitude (\<^verbatim>\<open>lat\<close>), longitude (\<^verbatim>\<open>long\<close>), city population
  (\<^verbatim>\<open>city_pop\<close>), job, merchant latitude (\<^verbatim>\<open>merch_lat\<close>), merchant longitude
  (\<^verbatim>\<open>merch_long\<close>), hour, day, month, weekday, is_weekend, age, distance; each column
  holds the value of that name.
\<close>

theorem feature_vector_layout:
  assumes "model st = Some clf"
  shows "\<exists>lat lon state zipcode city_pop merch_lat merch_long.
      resolve_city (city_lookup st) (city txn) = (lat, lon, state, zipcode, city_pop)
    \<and> resolve_merchant (merchant_lookup st) (merchant txn) lat lon = (merch_lat, merch_long)
    \<and> (case haversine fp lat lon merch_lat merch_long of
          Inl e \<Rightarrow> predict fp st now txn = (Inl (InternalServerError e), [])
        | Inr distance \<Rightarrow>
            (\<exists>row. snd (predict fp st now txn) = [[row]]
              \<and> length row = 20
              \<and> map fst row =
                  [''merchant'', ''category'', ''amt'', ''gender'', ''city'', ''state'', ''zip'',
                   ''lat'', ''long'', ''city_pop'', ''job'', ''merch_lat'', ''merch_long'',
                   ''hour'', ''day'', ''month'', ''weekday'', ''is_weekend'', ''age'',
                   ''distance'']
              \<and> distinct (map fst row)
              \<and> map snd row =
                  [PyStr (merchant txn), PyStr (category txn), PyFloat (amount txn),
                   PyStr ''M'', PyStr (city txn), PyStr state, PyInt zipcode, PyFloat lat,
                   PyFloat lon, PyInt (py_int city_pop), PyStr ''Software Engineer'',
                   PyFloat merch_lat, PyFloat merch_long, PyInt (dt_hour now),
                   PyInt (dt_day now), PyInt (dt_month now), PyInt (dt_weekday now),
                   PyInt (if 5 \<le> dt_weekday now then 1 else 0), PyInt 35,
                   PyFloat distance]))"
proof -
  obtain lat lon state zipcode city_pop where
    c: "resolve_city (city_lookup st) (city txn) = (lat, lon, state, zipcode, city_pop)"
    by (metis prod_cases5)
  obtain merch_lat merch_long where
    m: "resolve_merchant (merchant_lookup st) (merchant txn) lat lon = (merch_lat, merch_long)"
    by (metis surj_pair)
  note f = predict_frames [OF assms c m, of fp now]
  have k: "case haversine fp lat lon merch_lat merch_long of
          Inl e \<Rightarrow> predict fp st now txn = (Inl (InternalServerError e), [])
        | Inr distance \<Rightarrow>
            (\<exists>row. snd (predict fp st now txn) = [[row]]
              \<and> length row = 20
              \<and> map fst row =
                  [''merchant'', ''category'', ''amt'', ''gender'', ''city'', ''state'', ''zip'',
                   ''lat'', ''long'', ''city_pop'', ''job'', ''merch_lat'', ''merch_long'',
                   ''hour'', ''day'', ''month'', ''weekday'', ''is_weekend'', ''age'',
                   ''distance'']
              \<and> distinct (map fst row)
              \<and> map snd row =
                  [PyStr (merchant txn), PyStr (category txn), PyFloat (amount txn),
                   PyStr ''M'', PyStr (city txn), PyStr state, PyInt zipcode, PyFloat lat,
                   PyFloat lon, PyInt (py_int city_pop), PyStr ''Software Engineer'',
                   PyFloat merch_lat, PyFloat merch_long, PyInt (dt_hour now),
                   PyInt (dt_day now), PyInt (dt_month now), PyInt (dt_weekday now),
                   PyInt (if 5 \<le> dt_weekday now then 1 else 0), PyInt 35,
                   PyFloat distance])"
  proof (cases "haversine fp lat lon merch_lat merch_long")
    case (Inl e)
    then show ?thesis using f by simp
  next
    case (Inr distance)
    let ?row = "feature_dict txn state zipcode lat lon city_pop merch_lat merch_long
                   (dt_hour now) (dt_day now) (dt_month now) (dt_weekday now)
                   (if 5 \<le> dt_weekday now then 1 else 0) 35 distance"
    have r: "snd (predict fp st now txn) = [[?row]]" using f Inr by simp
    have l: "length ?row = 20" by (simp add: feature_dict_def)
    have n: "map fst ?row =
                  [''merchant'', ''category'', ''amt'', ''gender'', ''city'', ''state'', ''zip'',
                   ''lat'', ''long'', ''city_pop'', ''job'', ''merch_lat'', ''merch_long'',
                   ''hour'', ''day'', ''month'', ''weekday'', ''is_weekend'', ''age'',
                   ''distance'']"
      by (rule feature_dict_keys)
    have d: "distinct (map fst ?row)" by (simp only: n feature_names_distinct)
    have v: "map snd ?row =
                  [PyStr (merchant txn), PyStr (category txn), PyFloat (amount txn),
                   PyStr ''M'', PyStr (city txn), PyStr state, PyInt zipcode, PyFloat lat,
                   PyFloat lon, PyInt (py_int city_pop), PyStr ''Software Engineer'',
                   PyFloat merch_lat, PyFloat merch_long, PyInt (dt_hour now),
                   PyInt (dt_day now), PyInt (dt_month now), PyInt (dt_weekday now),
                   PyInt (if 5 \<le> dt_weekday now then 1 else 0), PyInt 35,
                   PyFloat distance]"
      by (rule feature_dict_values)
    have "\<exists>row. snd (predict fp st now txn) = [[row]]
              \<and> length row = 20
              \<and> map fst row =
                  [''merchant'', ''category'', ''amt'', ''gender'', ''city'', ''state'', ''zip'',
                   ''lat'', ''long'', ''city_pop'', ''job'', ''merch_lat'', ''merch_long'',
                   ''hour'', ''day'', ''month'', ''weekday'', ''is_weekend'', ''age'',
                   ''distance'']
              \<and> distinct (map fst row)
              \<and> map snd row =
                  [PyStr (merchant txn), PyStr (category txn), PyFloat (amount txn),
                   PyStr ''M'', PyStr (city txn), PyStr state, PyInt zipcode, PyFloat lat,
                   PyFloat lon, PyInt (py_int city_pop), PyStr ''Software Engineer'',
                   PyFloat merch_lat, PyFloat merch_long, PyInt (dt_hour now),
                   PyInt (dt_day now), PyInt (dt_month now), PyInt (dt_weekday now),
                   PyInt (if 5 \<le> dt_weekday now then 1 else 0), PyInt 35,
                   PyFloat distance]"
      by (rule exI [of _ "?row"]) (intro conjI r l n d v)
    then show ?thesis by (simp only: Inr sum.case)
  qed
  show ?thesis
    by (rule exI [of _ lat], rule exI [of _ lon], rule exI [of _ state],
        rule exI [of _ zipcode], rule exI [of _ city_pop], rule exI [of _ merch_lat],
        rule exI [of _ merch_long])
       (intro conjI c m k)
qed



theorem feature_vector_layout_witness:
  "model (sample_state 0.25) = Some (const_clf 0.25)
   \<and> (\<exists>row distance.
        haversine exact_arith 34 (- 81) 34.5 (- 80.5) = Inr distance
      \<and> snd (predict exact_arith (sample_state 0.25) sample_now known_txn) = [[row]]
      \<and> length row = 20
      \<and> map fst row =
        [''merchant'', ''category'', ''amt'', ''gender'', ''city'', ''state'', ''zip'', ''lat'',
         ''long'', ''city_pop'', ''job'', ''merch_lat'', ''merch_long'', ''hour'', ''day'',
         ''month'', ''weekday'', ''is_weekend'', ''age'', ''distance'']
      \<and> map snd row =
        [PyStr ''fraud_Kirlin and Sons'', PyStr ''personal_care'', PyFloat 2.86, PyStr ''M'',
         PyStr ''Columbia'', PyStr ''SC'', PyInt 29209, PyFloat 34, PyFloat (- 81),
         PyInt 333497, PyStr ''Software Engineer'', PyFloat 34.5, PyFloat (- 80.5),
         PyInt 14, PyInt 3, PyInt 11, PyInt 1, PyInt 0, PyInt 35, PyFloat distance])"
proof -
  let ?st = "sample_state 0.25"
  have m: "model ?st = Some (const_clf 0.25)" by (rule sample_model)
  from feature_vector_layout [OF m, of known_txn exact_arith sample_now]
  obtain lat lon state zipcode city_pop merch_lat merch_long where
    c: "resolve_city (city_lookup ?st) (city known_txn) = (lat, lon, state, zipcode, city_pop)"
    and mm: "resolve_merchant (merchant_lookup ?st) (merchant known_txn) lat lon
              = (merch_lat, merch_long)"
    and k: "case haversine exact_arith lat lon merch_lat merch_long of
          Inl e \<Rightarrow> predict exact_arith ?st sample_now known_txn = (Inl (InternalServerError e), [])
        | Inr distance \<Rightarrow>
            (\<exists>row. snd (predict exact_arith ?st sample_now known_txn) = [[row]]
              \<and> length row = 20
              \<and> map fst row =
                  [''merchant'', ''category'', ''amt'', ''gender'', ''city'', ''state'', ''zip'',
                   ''lat'', ''long'', ''city_pop'', ''job'', ''merch_lat'', ''merch_long'',
                   ''hour'', ''day'', ''month'', ''weekday'', ''is_weekend'', ''age'',
                   ''distance'']
              \<and> distinct (map fst row)
              \<and> map snd row =
                  [PyStr (merchant known_txn), PyStr (category known_txn),
                   PyFloat (amount known_txn), PyStr ''M'', PyStr (city known_txn),
                   PyStr state, PyInt zipcode, PyFloat lat, PyFloat lon,
                   PyInt (py_int city_pop), PyStr ''Software Engineer'', PyFloat merch_lat,
                   PyFloat merch_long, PyInt (dt_hour sample_now), PyInt (dt_day sample_now),
                   PyInt (dt_month sample_now), PyInt (dt_weekday sample_now),
                   PyInt (if 5 \<le> dt_weekday sample_now then 1 else 0), PyInt 35,
                   PyFloat distance])"
    by (elim exE conjE) (rule that)
  from c have c': "lat = 34" "lon = - 81" "state = ''SC''" "zipcode = 29209" "city_pop = 333497"
    by (simp_all add: resolve_city_def sample_city_known py_int_def)
  from mm have m': "merch_lat = 34.5" "merch_long = - 80.5"
    by (simp_all add: resolve_merchant_def sample_merchant_known)
  obtain distance where d: "haversine exact_arith lat lon merch_lat merch_long = Inr distance"
    using haversine_exact_returns by blast
  from k obtain row where
    r: "snd (predict exact_arith ?st sample_now known_txn) = [[row]]"
    and l: "length row = 20"
    and n: "map fst row =
        [''merchant'', ''category'', ''amt'', ''gender'', ''city'', ''state'', ''zip'', ''lat'',
         ''long'', ''city_pop'', ''job'', ''merch_lat'', ''merch_long'', ''hour'', ''day'',
         ''month'', ''weekday'', ''is_weekend'', ''age'', ''distance'']"
    and v: "map snd row =
                  [PyStr (merchant known_txn), PyStr (category known_txn),
                   PyFloat (amount known_txn), PyStr ''M'', PyStr (city known_txn),
                   PyStr state, PyInt zipcode, PyFloat lat, PyFloat lon,
                   PyInt (py_int city_pop), PyStr ''Software Engineer'', PyFloat merch_lat,
                   PyFloat merch_long, PyInt (dt_hour sample_now), PyInt (dt_day sample_now),
                   PyInt (dt_month sample_now), PyInt (dt_weekday sample_now),
                   PyInt (if 5 \<le> dt_weekday sample_now then 1 else 0), PyInt 35,
                   PyFloat distance]"
    unfolding d sum.case by (elim exE conjE) (rule that)
  have p: "py_int 333497 = 333497" by (simp add: py_int_def)
  have d': "haversine exact_arith 34 (- 81) 34.5 (- 80.5) = Inr distance"
    using d unfolding c' m' .
  have v': "map snd row =
        [PyStr ''fraud_Kirlin and Sons'', PyStr ''personal_care'', PyFloat 2.86, PyStr ''M'',
         PyStr ''Columbia'', PyStr ''SC'', PyInt 29209, PyFloat 34, PyFloat (- 81),
         PyInt 333497, PyStr ''Software Engineer'', PyFloat 34.5, PyFloat (- 80.5),
         PyInt 14, PyInt 3, PyInt 11, PyInt 1, PyInt 0, PyInt 35, PyFloat distance]"
    using v unfolding c' m' p by (simp add: known_txn_def sample_now_def)
  show ?thesis
    by (rule conjI [OF m], rule exI [of _ row], rule exI [of _ distance])
       (intro conjI d' r l n v')
qed

text \<open>
  C5: a city that is not in the city lookup table resolves to latitude 39.8283,
  longitude -98.5795, state KS, zip 66101 and population 50000; a city in the table
  resolves to the latitude, longitude and state of its entry, its zip as an integer, and
  its population. These are the values in the row the classifier receives, whenever the
  distance call returns and the classifier is invoked.
\<close>

theorem city_resolution:
  assumes "model st = Some clf"
  shows "\<exists>lat lon state zipcode city_pop merch_lat merch_long.
      resolve_city (city_lookup st) (city txn) = (lat, lon, state, zipcode, city_pop)
    \<and> resolve_merchant (merchant_lookup st) (merchant txn) lat lon = (merch_lat, merch_long)
    \<and> (city_lookup st (city txn) = None \<longrightarrow>
         lat = 39.8283 \<and> lon = - 98.5795 \<and> state = ''KS'' \<and> zipcode = 66101
         \<and> city_pop = 50000 \<and> py_int city_pop = 50000)
    \<and> (\<forall>ci. city_lookup st (city txn) = Some ci \<longrightarrow>
         lat = ci_lat ci \<and> lon = ci_long ci \<and> state = ci_state ci
         \<and> zipcode = py_int (ci_zip ci) \<and> city_pop = ci_city_pop ci)
    \<and> (case haversine fp lat lon merch_lat merch_long of
          Inl e \<Rightarrow> predict fp st now txn = (Inl (InternalServerError e), [])
        | Inr distance \<Rightarrow>
            (\<exists>row. snd (predict fp st now txn) = [[row]]
              \<and> map_of row ''lat'' = Some (PyFloat lat)
              \<and> map_of row ''long'' = Some (PyFloat lon)
              \<and> map_of row ''state'' = Some (PyStr state)
              \<and> map_of row ''zip'' = Some (PyInt zipcode)
              \<and> map_of row ''city_pop'' = Some (PyInt (py_int city_pop))))"
proof -
  obtain lat lon state zipcode city_pop where
    c: "resolve_city (city_lookup st) (city txn) = (lat, lon, state, zipcode, city_pop)"
    by (metis prod_cases5)
  obtain merch_lat merch_long where
    m: "resolve_merchant (merchant_lookup st) (merchant txn) lat lon = (merch_lat, merch_long)"
    by (metis surj_pair)
  note f = predict_frames [OF assms c m, of fp now]
  have absent: "city_lookup st (city txn) = None \<longrightarrow>
         lat = 39.8283 \<and> lon = - 98.5795 \<and> state = ''KS'' \<and> zipcode = 66101
         \<and> city_pop = 50000 \<and> py_int city_pop = 50000"
  proof
    assume n: "city_lookup st (city txn) = None"
    have v: "lat = 39.8283 \<and> lon = - 98.5795 \<and> state = ''KS'' \<and> zipcode = 66101
         \<and> city_pop = 50000"
      using c n by (simp add: resolve_city_def)
    then have "py_int city_pop = 50000" by (simp add: py_int_def)
    with v show "lat = 39.8283 \<and> lon = - 98.5795 \<and> state = ''KS'' \<and> zipcode = 66101
         \<and> city_pop = 50000 \<and> py_int city_pop = 50000"
      by (intro conjI) (elim conjE, assumption)+
  qed
  have present: "\<forall>ci. city_lookup st (city txn) = Some ci \<longrightarrow>
         lat = ci_lat ci \<and> lon = ci_long ci \<and> state = ci_state ci
         \<and> zipcode = py_int (ci_zip ci) \<and> city_pop = ci_city_pop ci"
    using c by (auto simp: resolve_city_def)
  have k: "case haversine fp lat lon merch_lat merch_long of
          Inl e \<Rightarrow> predict fp st now txn = (Inl (InternalServerError e), [])
        | Inr distance \<Rightarrow>
            (\<exists>row. snd (predict fp st now txn) = [[row]]
              \<and> map_of row ''lat'' = Some (PyFloat lat)
              \<and> map_of row ''long'' = Some (PyFloat lon)
              \<and> map_of row ''state'' = Some (PyStr state)
              \<and> map_of row ''zip'' = Some (PyInt zipcode)
              \<and> map_of row ''city_pop'' = Some (PyInt (py_int city_pop)))"
  proof (cases "haversine fp lat lon merch_lat merch_long")
    case (Inl e)
    then show ?thesis using f by simp
  next
    case (Inr distance)
    let ?row = "feature_dict txn state zipcode lat lon city_pop merch_lat merch_long
                   (dt_hour now) (dt_day now) (dt_month now) (dt_weekday now)
                   (if 5 \<le> dt_weekday now then 1 else 0) 35 distance"
    have r: "snd (predict fp st now txn) = [[?row]]" using f Inr by simp
    have "\<exists>row. snd (predict fp st now txn) = [[row]]
              \<and> map_of row ''lat'' = Some (PyFloat lat)
              \<and> map_of row ''long'' = Some (PyFloat lon)
              \<and> map_of row ''state'' = Some (PyStr state)
              \<and> map_of row ''zip'' = Some (PyInt zipcode)
              \<and> map_of row ''city_pop'' = Some (PyInt (py_int city_pop))"
      by (rule exI [of _ "?row"]) (intro conjI r feature_dict_city)
    then show ?thesis by (simp only: Inr sum.case)
  qed
  show ?thesis
    by (rule exI [of _ lat], rule exI [of _ lon], rule exI [of _ state],
        rule exI [of _ zipcode], rule exI [of _ city_pop], rule exI [of _ merch_lat],
        rule exI [of _ merch_long])
       (intro conjI c m absent present k)
qed



theorem city_resolution_witness:
  "model (sample_state 0.25) = Some (const_clf 0.25)
   \<and> city_lookup (sample_state 0.25) (city unknown_txn) = None
   \<and> resolve_city (city_lookup (sample_state 0.25)) (city unknown_txn)
       = (39.8283, - 98.5795, ''KS'', 66101, 50000)
   \<and> (\<exists>row. snd (predict exact_arith (sample_state 0.25) sample_now unknown_txn) = [[row]]
         \<and> map_of row ''lat'' = Some (PyFloat 39.8283)
         \<and> map_of row ''long'' = Some (PyFloat (- 98.5795))
         \<and> map_of row ''state'' = Some (PyStr ''KS'')
         \<and> map_of row ''zip'' = Some (PyInt 66101)
         \<and> map_of row ''city_pop'' = Some (PyInt 50000))
   \<and> city_lookup (sample_state 0.25) (city known_txn) =
         Some \<lparr>ci_lat = 34, ci_long = - 81, ci_state = ''SC'', ci_zip = 29209,
               ci_city_pop = 333497\<rparr>
   \<and> resolve_city (city_lookup (sample_state 0.25)) (city known_txn)
       = (34, - 81, ''SC'', 29209, 333497)
   \<and> (\<exists>row. snd (predict exact_arith (sample_state 0.25) sample_now known_txn) = [[row]]
         \<and> map_of row ''lat'' = Some (PyFloat 34)
         \<and> map_of row ''long'' = Some (PyFloat (- 81))
         \<and> map_of row ''state'' = Some (PyStr ''SC'')
         \<and> map_of row ''zip'' = Some (PyInt 29209)
         \<and> map_of row ''city_pop'' = Some (PyInt 333497))"
proof -
  let ?st = "sample_state 0.25"
  let ?ci = "\<lparr>ci_lat = 34, ci_long = - 81, ci_state = ''SC'', ci_zip = 29209,
               ci_city_pop = 333497\<rparr>"
  have m: "model ?st = Some (const_clf 0.25)" by (rule sample_model)
  have u: "city_lookup ?st (city unknown_txn) = None" by (rule sample_city_unknown)
  have k: "city_lookup ?st (city known_txn) = Some ?ci" by (rule sample_city_known)
  from city_resolution [OF m, of unknown_txn exact_arith sample_now]
  obtain lat1 lon1 state1 zipcode1 city_pop1 merch_lat1 merch_long1 where
    c1: "resolve_city (city_lookup ?st) (city unknown_txn)
           = (lat1, lon1, state1, zipcode1, city_pop1)"
    and a1: "city_lookup ?st (city unknown_txn) = None \<longrightarrow>
         lat1 = 39.8283 \<and> lon1 = - 98.5795 \<and> state1 = ''KS'' \<and> zipcode1 = 66101
         \<and> city_pop1 = 50000 \<and> py_int city_pop1 = 50000"
    and k1: "case haversine exact_arith lat1 lon1 merch_lat1 merch_long1 of
          Inl e \<Rightarrow> predict exact_arith ?st sample_now unknown_txn
                     = (Inl (InternalServerError e), [])
        | Inr distance \<Rightarrow>
            (\<exists>row. snd (predict exact_arith ?st sample_now unknown_txn) = [[row]]
              \<and> map_of row ''lat'' = Some (PyFloat lat1)
              \<and> map_of row ''long'' = Some (PyFloat lon1)
              \<and> map_of row ''state'' = Some (PyStr state1)
              \<and> map_of row ''zip'' = Some (PyInt zipcode1)
              \<and> map_of row ''city_pop'' = Some (PyInt (py_int city_pop1)))"
    by (elim exE conjE) (rule that)
  from a1 u have v1: "lat1 = 39.8283" "lon1 = - 98.5795" "state1 = ''KS''" "zipcode1 = 66101"
    "city_pop1 = 50000" "py_int city_pop1 = 50000"
    by blast+
  obtain d1 where d1: "haversine exact_arith lat1 lon1 merch_lat1 merch_long1 = Inr d1"
    using haversine_exact_returns by blast
  have e1: "\<exists>row. snd (predict exact_arith ?st sample_now unknown_txn) = [[row]]
         \<and> map_of row ''lat'' = Some (PyFloat 39.8283)
         \<and> map_of row ''long'' = Some (PyFloat (- 98.5795))
         \<and> map_of row ''state'' = Some (PyStr ''KS'')
         \<and> map_of row ''zip'' = Some (PyInt 66101)
         \<and> map_of row ''city_pop'' = Some (PyInt 50000)"
    using k1 unfolding d1 sum.case v1(6) unfolding v1(1-4) .
  have r1: "resolve_city (city_lookup ?st) (city unknown_txn)
       = (39.8283, - 98.5795, ''KS'', 66101, 50000)"
    using c1 unfolding v1(1-5) .
  from city_resolution [OF m, of known_txn exact_arith sample_now]
  obtain lat2 lon2 state2 zipcode2 city_pop2 merch_lat2 merch_long2 where
    c2: "resolve_city (city_lookup ?st) (city known_txn)
           = (lat2, lon2, state2, zipcode2, city_pop2)"
    and a2: "\<forall>ci. city_lookup ?st (city known_txn) = Some ci \<longrightarrow>
         lat2 = ci_lat ci \<and> lon2 = ci_long ci \<and> state2 = ci_state ci
         \<and> zipcode2 = py_int (ci_zip ci) \<and> city_pop2 = ci_city_pop ci"
    and k2: "case haversine exact_arith lat2 lon2 merch_lat2 merch_long2 of
          Inl e \<Rightarrow> predict exact_arith ?st sample_now known_txn
                     = (Inl (InternalServerError e), [])
        | Inr distance \<Rightarrow>
            (\<exists>row. snd (predict exact_arith ?st sample_now known_txn) = [[row]]
              \<and> map_of row ''lat'' = Some (PyFloat lat2)
              \<and> map_of row ''long'' = Some (PyFloat lon2)
              \<and> map_of row ''state'' = Some (PyStr state2)
              \<and> map_of row ''zip'' = Some (PyInt zipcode2)
              \<and> map_of row ''city_pop'' = Some (PyInt (py_int city_pop2)))"
    by (elim exE conjE) (rule that)
  from spec [OF a2, of ?ci] k have "lat2 = ci_lat ?ci \<and> lon2 = ci_long ?ci
      \<and> state2 = ci_state ?ci \<and> zipcode2 = py_int (ci_zip ?ci) \<and> city_pop2 = ci_city_pop ?ci"
    by (rule mp)
  then have v2: "lat2 = 34" "lon2 = - 81" "state2 = ''SC''" "zipcode2 = 29209"
    "city_pop2 = 333497"
    by (simp_all add: py_int_def)
  have p2: "py_int 333497 = 333497" by (simp add: py_int_def)
  obtain d2 where d2: "haversine exact_arith lat2 lon2 merch_lat2 merch_long2 = Inr d2"
    using haversine_exact_returns by blast
  have e2: "\<exists>row. snd (predict exact_arith ?st sample_now known_txn) = [[row]]
         \<and> map_of row ''lat'' = Some (PyFloat 34)
         \<and> map_of row ''long'' = Some (PyFloat (- 81))
         \<and> map_of row ''state'' = Some (PyStr ''SC'')
         \<and> map_of row ''zip'' = Some (PyInt 29209)
         \<and> map_of row ''city_pop'' = Some (PyInt 333497)"
    using k2 unfolding d2 sum.case unfolding v2 p2 .
  have r2: "resolve_city (city_lookup ?st) (city known_txn) = (34, - 81, ''SC'', 29209, 333497)"
    using c2 unfolding v2 .
  show ?thesis by (intro conjI m u r1 e1 k r2 e2)
qed

text \<open>
  C6: a merchant that is not in the merchant lookup table gets the coordinates of the
  resolved city (table entry or fallback) plus 0.01 each; a merchant in the table gets
  the coordinates of its entry. These are the values in the row the classifier receives,
  whenever the distance call returns and the classifier is invoked.
\<close>

theorem merchant_resolution:
  assumes "model st = Some clf"
  shows "\<exists>lat lon state zipcode city_pop merch_lat merch_long.
      resolve_city (city_lookup st) (city txn) = (lat, lon, state, zipcode, city_pop)
    \<and> resolve_merchant (merchant_lookup st) (merchant txn) lat lon = (merch_lat, merch_long)
    \<and> (merchant_lookup st (merchant txn) = None \<longrightarrow>
         merch_lat = lat + 0.01 \<and> merch_long = lon + 0.01)
    \<and> (\<forall>mi. merchant_lookup st (merchant txn) = Some mi \<longrightarrow>
         merch_lat = mi_merch_lat mi \<and> merch_long = mi_merch_long mi)
    \<and> (case haversine fp lat lon merch_lat merch_long of
          Inl e \<Rightarrow> predict fp st now txn = (Inl (InternalServerError e), [])
        | Inr distance \<Rightarrow>
            (\<exists>row. snd (predict fp st now txn) = [[row]]
              \<and> map_of row ''lat'' = Some (PyFloat lat)
              \<and> map_of row ''long'' = Some (PyFloat lon)
              \<and> map_of row ''merch_lat'' = Some (PyFloat merch_lat)
              \<and> map_of row ''merch_long'' = Some (PyFloat merch_long)))"
proof -
  obtain lat lon state zipcode city_pop where
    c: "resolve_city (city_lookup st) (city txn) = (lat, lon, state, zipcode, city_pop)"
    by (metis prod_cases5)
  obtain merch_lat merch_long where
    m: "resolve_merchant (merchant_lookup st) (merchant txn) lat lon = (merch_lat, merch_long)"
    by (metis surj_pair)
  note f = predict_frames [OF assms c m, of fp now]
  have absent: "merchant_lookup st (merchant txn) = None \<longrightarrow>
         merch_lat = lat + 0.01 \<and> merch_long = lon + 0.01"
    using m by (auto simp: resolve_merchant_def)
  have present: "\<forall>mi. merchant_lookup st (merchant txn) = Some mi \<longrightarrow>
         merch_lat = mi_merch_lat mi \<and> merch_long = mi_merch_long mi"
    using m by (auto simp: resolve_merchant_def)
  have k: "case haversine fp lat lon merch_lat merch_long of
          Inl e \<Rightarrow> predict fp st now txn = (Inl (InternalServerError e), [])
        | Inr distance \<Rightarrow>
            (\<exists>row. snd (predict fp st now txn) = [[row]]
              \<and> map_of row ''lat'' = Some (PyFloat lat)
              \<and> map_of row ''long'' = Some (PyFloat lon)
              \<and> map_of row ''merch_lat'' = Some (PyFloat merch_lat)
              \<and> map_of row ''merch_long'' = Some (PyFloat merch_long))"
  proof (cases "haversine fp lat lon merch_lat merch_long")
    case (Inl e)
    then show ?thesis using f by simp
  next
    case (Inr distance)
    let ?row = "feature_dict txn state zipcode lat lon city_pop merch_lat merch_long
                   (dt_hour now) (dt_day now) (dt_month now) (dt_weekday now)
                   (if 5 \<le> dt_weekday now then 1 else 0) 35 distance"
    have r: "snd (predict fp st now txn) = [[?row]]" using f Inr by simp
    have "\<exists>row. snd (predict fp st now txn) = [[row]]
              \<and> map_of row ''lat'' = Some (PyFloat lat)
              \<and> map_of row ''long'' = Some (PyFloat lon)
              \<and> map_of row ''merch_lat'' = Some (PyFloat merch_lat)
              \<and> map_of row ''merch_long'' = Some (PyFloat merch_long)"
      by (rule exI [of _ "?row"]) (intro conjI r feature_dict_city(1,2) feature_dict_merchant)
    then show ?thesis by (simp only: Inr sum.case)
  qed
  show ?thesis
    by (rule exI [of _ lat], rule exI [of _ lon], rule exI [of _ state],
        rule exI [of _ zipcode], rule exI [of _ city_pop], rule exI [of _ merch_lat],
        rule exI [of _ merch_long])
       (intro conjI c m absent present k)
qed



theorem merchant_resolution_witness:
  "model (sample_state 0.25) = Some (const_clf 0.25)
   \<and> merchant_lookup (sample_state 0.25) (merchant unknown_txn) = None
   \<and> (\<exists>row. snd (predict exact_arith (sample_state 0.25) sample_now unknown_txn) = [[row]]
         \<and> map_of row ''lat'' = Some (PyFloat 39.8283)
         \<and> map_of row ''long'' = Some (PyFloat (- 98.5795))
         \<and> map_of row ''merch_lat'' = Some (PyFloat 39.8383)
         \<and> map_of row ''merch_long'' = Some (PyFloat (- 98.5695)))
   \<and> merchant_lookup (sample_state 0.25) (merchant new_merchant_txn) = None
   \<and> (\<exists>row. snd (predict exact_arith (sample_state 0.25) sample_now new_merchant_txn) = [[row]]
         \<and> map_of row ''lat'' = Some (PyFloat 34)
         \<and> map_of row ''long'' = Some (PyFloat (- 81))
         \<and> map_of row ''merch_lat'' = Some (PyFloat 34.01)
         \<and> map_of row ''merch_long'' = Some (PyFloat (- 80.99)))
   \<and> merchant_lookup (sample_state 0.25) (merchant known_txn) =
         Some \<lparr>mi_merch_lat = 34.5, mi_merch_long = - 80.5\<rparr>
   \<and> (\<exists>row. snd (predict exact_arith (sample_state 0.25) sample_now known_txn) = [[row]]
         \<and> map_of row ''merch_lat'' = Some (PyFloat 34.5)
         \<and> map_of row ''merch_long'' = Some (PyFloat (- 80.5)))"
proof -
  let ?st = "sample_state 0.25"
  let ?mi = "\<lparr>mi_merch_lat = 34.5, mi_merch_long = - 80.5\<rparr>"
  have m: "model ?st = Some (const_clf 0.25)" by (rule sample_model)
  have u: "merchant_lookup ?st (merchant unknown_txn) = None"
    and n: "merchant_lookup ?st (merchant new_merchant_txn) = None"
    by (rule sample_merchant_unknown)+
  have k: "merchant_lookup ?st (merchant known_txn) = Some ?mi" by (rule sample_merchant_known)
  have cu: "resolve_city (city_lookup ?st) (city unknown_txn)
              = (39.8283, - 98.5795, ''KS'', 66101, 50000)"
    by (simp add: resolve_city_def sample_city_unknown)
  have cn: "resolve_city (city_lookup ?st) (city new_merchant_txn)
              = (34, - 81, ''SC'', 29209, 333497)"
    by (simp add: resolve_city_def sample_city_known py_int_def)
  from merchant_resolution [OF m, of unknown_txn exact_arith sample_now]
  obtain lat1 lon1 state1 zipcode1 city_pop1 merch_lat1 merch_long1 where
    c1: "resolve_city (city_lookup ?st) (city unknown_txn)
           = (lat1, lon1, state1, zipcode1, city_pop1)"
    and a1: "merchant_lookup ?st (merchant unknown_txn) = None \<longrightarrow>
         merch_lat1 = lat1 + 0.01 \<and> merch_long1 = lon1 + 0.01"
    and k1: "case haversine exact_arith lat1 lon1 merch_lat1 merch_long1 of
          Inl e \<Rightarrow> predict exact_arith ?st sample_now unknown_txn
                     = (Inl (InternalServerError e), [])
        | Inr distance \<Rightarrow>
            (\<exists>row. snd (predict exact_arith ?st sample_now unknown_txn) = [[row]]
              \<and> map_of row ''lat'' = Some (PyFloat lat1)
              \<and> map_of row ''long'' = Some (PyFloat lon1)
              \<and> map_of row ''merch_lat'' = Some (PyFloat merch_lat1)
              \<and> map_of row ''merch_long'' = Some (PyFloat merch_long1))"
    by (elim exE conjE) (rule that)
  have v1: "lat1 = 39.8283" "lon1 = - 98.5795" using c1 unfolding cu by simp_all
  from a1 u have "merch_lat1 = lat1 + 0.01 \<and> merch_long1 = lon1 + 0.01" by (rule mp)
  then have w1: "merch_lat1 = 39.8383" "merch_long1 = - 98.5695" unfolding v1 by simp_all
  obtain d1 where d1: "haversine exact_arith lat1 lon1 merch_lat1 merch_long1 = Inr d1"
    using haversine_exact_returns by blast
  have e1: "\<exists>row. snd (predict exact_arith ?st sample_now unknown_txn) = [[row]]
         \<and> map_of row ''lat'' = Some (PyFloat 39.8283)
         \<and> map_of row ''long'' = Some (PyFloat (- 98.5795))
         \<and> map_of row ''merch_lat'' = Some (PyFloat 39.8383)
         \<and> map_of row ''merch_long'' = Some (PyFloat (- 98.5695))"
    using k1 unfolding d1 sum.case unfolding v1 w1 .
  from merchant_resolution [OF m, of new_merchant_txn exact_arith sample_now]
  obtain lat2 lon2 state2 zipcode2 city_pop2 merch_lat2 merch_long2 where
    c2: "resolve_city (city_lookup ?st) (city new_merchant_txn)
           = (lat2, lon2, state2, zipcode2, city_pop2)"
    and a2: "merchant_lookup ?st (merchant new_merchant_txn) = None \<longrightarrow>
         merch_lat2 = lat2 + 0.01 \<and> merch_long2 = lon2 + 0.01"
    and k2: "case haversine exact_arith lat2 lon2 merch_lat2 merch_long2 of
          Inl e \<Rightarrow> predict exact_arith ?st sample_now new_merchant_txn
                     = (Inl (InternalServerError e), [])
        | Inr distance \<Rightarrow>
            (\<exists>row. snd (predict exact_arith ?st sample_now new_merchant_txn) = [[row]]
              \<and> map_of row ''lat'' = Some (PyFloat lat2)
              \<and> map_of row ''long'' = Some (PyFloat lon2)
              \<and> map_of row ''merch_lat'' = Some (PyFloat merch_lat2)
              \<and> map_of row ''merch_long'' = Some (PyFloat merch_long2))"
    by (elim exE conjE) (rule that)
  have v2: "lat2 = 34" "lon2 = - 81" using c2 unfolding cn by simp_all
  from a2 n have "merch_lat2 = lat2 + 0.01 \<and> merch_long2 = lon2 + 0.01" by (rule mp)
  then have w2: "merch_lat2 = 34.01" "merch_long2 = - 80.99" unfolding v2 by simp_all
  obtain d2 where d2: "haversine exact_arith lat2 lon2 merch_lat2 merch_long2 = Inr d2"
    using haversine_exact_returns by blast
  have e2: "\<exists>row. snd (predict exact_arith ?st sample_now new_merchant_txn) = [[row]]
         \<and> map_of row ''lat'' = Some (PyFloat 34)
         \<and> map_of row ''long'' = Some (PyFloat (- 81))
         \<and> map_of row ''merch_lat'' = Some (PyFloat 34.01)
         \<and> map_of row ''merch_long'' = Some (PyFloat (- 80.99))"
    using k2 unfolding d2 sum.case unfolding v2 w2 .
  from merchant_resolution [OF m, of known_txn exact_arith sample_now]
  obtain lat3 lon3 state3 zipcode3 city_pop3 merch_lat3 merch_long3 where
    a3: "\<forall>mi. merchant_lookup ?st (merchant known_txn) = Some mi \<longrightarrow>
         merch_lat3 = mi_merch_lat mi \<and> merch_long3 = mi_merch_long mi"
    and k3: "case haversine exact_arith lat3 lon3 merch_lat3 merch_long3 of
          Inl e \<Rightarrow> predict exact_arith ?st sample_now known_txn
                     = (Inl (InternalServerError e), [])
        | Inr distance \<Rightarrow>
            (\<exists>row. snd (predict exact_arith ?st sample_now known_txn) = [[row]]
              \<and> map_of row ''lat'' = Some (PyFloat lat3)
              \<and> map_of row ''long'' = Some (PyFloat lon3)
              \<and> map_of row ''merch_lat'' = Some (PyFloat merch_lat3)
              \<and> map_of row ''merch_long'' = Some (PyFloat merch_long3))"
    by (elim exE conjE) (rule that)
  from spec [OF a3, of ?mi] k
  have "merch_lat3 = mi_merch_lat ?mi \<and> merch_long3 = mi_merch_long ?mi" by (rule mp)
  then have w3: "merch_lat3 = 34.5" "merch_long3 = - 80.5" by simp_all
  obtain d3 where d3: "haversine exact_arith lat3 lon3 merch_lat3 merch_long3 = Inr d3"
    using haversine_exact_returns by blast
  from k3 obtain row3 where
    r3: "snd (predict exact_arith ?st sample_now known_txn) = [[row3]]"
    and f3: "map_of row3 ''merch_lat'' = Some (PyFloat merch_lat3)"
      "map_of row3 ''merch_long'' = Some (PyFloat merch_long3)"
    unfolding d3 sum.case by (elim exE conjE) (rule that)
  have e3: "\<exists>row. snd (predict exact_arith ?st sample_now known_txn) = [[row]]
         \<and> map_of row ''merch_lat'' = Some (PyFloat 34.5)
         \<and> map_of row ''merch_long'' = Some (PyFloat (- 80.5))"
    using r3 f3 unfolding w3 by (intro exI [of _ row3] conjI)
  show ?thesis by (intro conjI m u n k e1 e2 e3)
qed

subsection \<open>The domain error of the distance helper\<close>




subsection \<open>Double arithmetic\<close>

lemma ulp_pos: "0 < ulp x"
  by (simp add: ulp_def)

lemma binade_minus: "binade (- x) = binade x" and ulp_minus: "ulp (- x) = ulp x"
  by (simp_all add: binade_def ulp_def)

lemma py_round_of_int: "py_round (of_int n) = n"
  by (simp add: py_round_def Let_def)

lemma py_round_nearest_int: "\<bar>of_int (py_round y) - y\<bar> \<le> \<bar>of_int n - y\<bar>"
proof (rule ccontr)
  assume "\<not> \<bar>of_int (py_round y) - y\<bar> \<le> \<bar>of_int n - y\<bar>"
  then have a: "\<bar>of_int n - y\<bar> < \<bar>of_int (py_round y) - y\<bar>" by simp
  have b: "\<bar>of_int (py_round y) - y\<bar> \<le> 1 / 2" by (rule py_round_nearest)
  have "\<bar>real_of_int n - of_int (py_round y)\<bar> < 1" using a b by linarith
  then have "\<bar>n - py_round y\<bar> < 1" by linarith
  then have "n = py_round y" by simp
  then show False using a by simp
qed

lemma py_round_minus: "py_round (- y) = - py_round y"
proof (cases "y = of_int \<lfloor>y\<rfloor>")
  case True
  then obtain n where "y = of_int n" by blast
  then have "- y = of_int (- n)" by simp
  then show ?thesis using \<open>y = of_int n\<close> by (simp only: py_round_of_int)
next
  case False
  have f: "of_int \<lfloor>y\<rfloor> < y" "y < of_int \<lfloor>y\<rfloor> + 1" using False by linarith+
  then have g: "\<lfloor>- y\<rfloor> = - \<lfloor>y\<rfloor> - 1" by linarith
  show ?thesis
    using f by (auto simp: py_round_def Let_def g)
qed

lemma binary64_rnd_minus: "binary64_rnd (- x) = - binary64_rnd x"
  by (simp add: binary64_rnd_def ulp_minus py_round_minus)

lemma binade_upper:
  assumes "x \<noteq> 0"
  shows "\<bar>x\<bar> < 2 powr of_int (binade x + 1)"
proof -
  have "log 2 \<bar>x\<bar> < of_int \<lfloor>log 2 \<bar>x\<bar>\<rfloor> + 1" by linarith
  also have "\<dots> \<le> of_int (binade x + 1)" by (simp add: binade_def)
  finally have "log 2 \<bar>x\<bar> < of_int (binade x + 1)" .
  then show ?thesis using assms by (simp add: log_less_iff)
qed

lemma binade_lower:
  assumes "x \<noteq> 0" "- 1022 < binade x"
  shows "2 powr of_int (binade x) \<le> \<bar>x\<bar>"
proof -
  have "binade x = \<lfloor>log 2 \<bar>x\<bar>\<rfloor>" using assms(2) by (simp add: binade_def max_def split: if_splits)
  then have "of_int (binade x) \<le> log 2 \<bar>x\<bar>" by simp
  then show ?thesis using assms(1) by (simp add: le_log_iff)
qed

lemma binary64_error: "\<bar>binary64_rnd x - x\<bar> \<le> ulp x / 2"
proof (cases "x = 0")
  case True
  then show ?thesis using ulp_pos [of x] by (simp add: binary64_rnd_def)
next
  case False
  have "binary64_rnd x - x = (of_int (py_round (x / ulp x)) - x / ulp x) * ulp x"
    using False ulp_pos [of x] by (simp add: binary64_rnd_def field_simps)
  then have "\<bar>binary64_rnd x - x\<bar> = \<bar>of_int (py_round (x / ulp x)) - x / ulp x\<bar> * ulp x"
    using ulp_pos [of x] by (simp add: abs_mult)
  also have "\<dots> \<le> (1 / 2) * ulp x"
    using ulp_pos [of x] by (intro mult_right_mono py_round_nearest) simp
  finally show ?thesis by simp
qed

lemma binary64_multiple:
  assumes "d = of_int m * ulp x"
  shows "\<bar>binary64_rnd x - x\<bar> \<le> \<bar>d - x\<bar>"
proof (cases "x = 0")
  case True
  then show ?thesis by (simp add: binary64_rnd_def)
next
  case False
  have u: "0 < ulp x" by (rule ulp_pos)
  have "binary64_rnd x - x = (of_int (py_round (x / ulp x)) - x / ulp x) * ulp x"
    using False u by (simp add: binary64_rnd_def field_simps)
  then have "\<bar>binary64_rnd x - x\<bar> = \<bar>of_int (py_round (x / ulp x)) - x / ulp x\<bar> * ulp x"
    using u by (simp add: abs_mult)
  also have "\<dots> \<le> \<bar>of_int m - x / ulp x\<bar> * ulp x"
    using u by (intro mult_right_mono py_round_nearest_int) simp
  also have "\<dots> = \<bar>(of_int m - x / ulp x) * ulp x\<bar>" using u by (simp add: abs_mult)
  also have "(of_int m - x / ulp x) * ulp x = d - x" using u assms by (simp add: field_simps)
  finally show ?thesis .
qed

lemma two_powr_int:
  assumes "0 \<le> n"
  shows "(2::real) powr of_int n = of_int (2 ^ nat n)"
proof -
  have "real_of_int n = real (nat n)" using assms by simp
  then have "(2::real) powr of_int n = 2 ^ nat n"
    by (simp only: powr_realpow zero_less_numeral)
  then show ?thesis by simp
qed

lemma ulp_ratio:
  assumes "binade x \<le> binade d"
  shows "ulp d = of_int (2 ^ nat (binade d - binade x)) * ulp x"
proof -
  have "ulp d = 2 powr (of_int (binade d - binade x) + of_int (binade x - 52))"
    by (simp add: ulp_def)
  also have "\<dots> = 2 powr of_int (binade d - binade x) * ulp x"
    by (simp only: powr_add ulp_def)
  finally show ?thesis using assms by (simp only: two_powr_int [of "binade d - binade x"])
qed

lemma binary64_fixed_multiple:
  assumes "binary64_rnd d = d"
  shows "\<exists>n. d = of_int n * ulp d"
proof (cases "d = 0")
  case True
  then show ?thesis by (intro exI [of _ 0]) simp
next
  case False
  then show ?thesis using assms by (intro exI [of _ "py_round (d / ulp d)"]) (simp add: binary64_rnd_def)
qed

lemma binade_edge:
  assumes "x \<noteq> 0" "- 1022 < binade x"
  shows "2 powr of_int (binade x) = of_int (2 ^ 52) * ulp x"
proof -
  have "2 powr of_int (binade x) = 2 powr (of_int 52 + of_int (binade x - 52))" by simp
  also have "\<dots> = 2 powr of_int 52 * ulp x" by (simp only: powr_add ulp_def)
  finally show ?thesis by (simp only: two_powr_int [of 52]) simp
qed

lemma binary64_nearest:
  assumes "binary64_rnd d = d"
  shows "\<bar>binary64_rnd x - x\<bar> \<le> \<bar>d - x\<bar>"
proof (cases "x = 0 \<or> d = 0 \<or> binade x \<le> binade d")
  case True
  obtain n where n: "d = of_int n * ulp d" using binary64_fixed_multiple [OF assms] by blast
  show ?thesis
  proof (cases "x = 0")
    case True
    then show ?thesis by (simp add: binary64_rnd_def)
  next
    case x0: False
    have "\<exists>m. d = of_int m * ulp x"
    proof (cases "d = 0")
      case True
      then show ?thesis by (intro exI [of _ 0]) simp
    next
      case False
      then have "binade x \<le> binade d" using \<open>x = 0 \<or> d = 0 \<or> binade x \<le> binade d\<close> x0 by simp
      then have "d = of_int (n * 2 ^ nat (binade d - binade x)) * ulp x"
        using n ulp_ratio [of x d] by simp
      then show ?thesis by blast
    qed
    then show ?thesis using binary64_multiple by blast
  qed
next
  case False
  then have x0: "x \<noteq> 0" and d0: "d \<noteq> 0" and lt: "binade d < binade x" by simp_all
  have bx: "- 1022 < binade x" using lt by (simp add: binade_def)
  let ?B = "2 powr of_int (binade x)"
  have B: "?B \<le> \<bar>x\<bar>" by (rule binade_lower [OF x0 bx])
  have "\<bar>d\<bar> < 2 powr of_int (binade d + 1)" by (rule binade_upper [OF d0])
  also have "\<dots> \<le> ?B" using lt by (simp add: powr_mono)
  finally have dB: "\<bar>d\<bar> < ?B" .
  have e: "?B = of_int (2 ^ 52) * ulp x" by (rule binade_edge [OF x0 bx])
  show ?thesis
  proof (cases "0 < x")
    case True
    have "\<bar>binary64_rnd x - x\<bar> \<le> \<bar>?B - x\<bar>" by (rule binary64_multiple [OF e])
    then show ?thesis using B dB True by linarith
  next
    case False
    have "- ?B = of_int (- (2 ^ 52)) * ulp x" using e by simp
    then have "\<bar>binary64_rnd x - x\<bar> \<le> \<bar>- ?B - x\<bar>" by (rule binary64_multiple)
    then show ?thesis using B dB False x0 by linarith
  qed
qed

text \<open>The rounding meets what the theorems ask of a rounding function.\<close>

lemma binade_eq:
  assumes "- 1022 \<le> e" "2 powr of_int e \<le> \<bar>x\<bar>" "\<bar>x\<bar> < 2 powr of_int (e + 1)"
  shows "binade x = e"
proof -
  have p: "0 < \<bar>x\<bar>" using assms(2) powr_gt_zero [of 2 "of_int e"] by linarith
  have "of_int e \<le> log 2 \<bar>x\<bar>" using assms(2) p by (simp add: le_log_iff)
  moreover have "log 2 \<bar>x\<bar> < of_int (e + 1)" using assms(3) p by (simp add: log_less_iff)
  ultimately have "\<lfloor>log 2 \<bar>x\<bar>\<rfloor> = e" by linarith
  then show ?thesis using assms(1) by (simp add: binade_def)
qed

lemma binary64_relative_error:
  "\<bar>binary64_rnd x - x\<bar> \<le> \<bar>x\<bar> / 2 ^ 53 + 1 / 2 ^ 1075"
proof (cases "x \<noteq> 0 \<and> - 1022 < binade x")
  case True
  then have "2 powr of_int (binade x) = of_int (2 ^ 52) * ulp x" by (intro binade_edge) simp_all
  then have "ulp x / 2 = 2 powr of_int (binade x) / 2 ^ 53" by simp
  also have "\<dots> \<le> \<bar>x\<bar> / 2 ^ 53"
    using True by (intro divide_right_mono binade_lower) simp_all
  finally have "ulp x / 2 \<le> \<bar>x\<bar> / 2 ^ 53" .
  moreover have "(0::real) \<le> 1 / 2 ^ 1075" by simp
  ultimately show ?thesis using binary64_error [of x] by linarith
next
  case False
  show ?thesis
  proof (cases "x = 0")
    case True
    then show ?thesis by (simp add: binary64_rnd_def)
  next
    case x0: False
    then have "binade x = - 1022" using False by (simp add: binade_def max_def split: if_splits)
    then have "ulp x = 2 powr (- real 1074)" by (simp add: ulp_def)
    also have "\<dots> = 1 / 2 ^ 1074" by (simp only: powr_minus_divide powr_realpow zero_less_numeral)
    finally have "ulp x / 2 = 1 / 2 ^ 1075" by simp
    moreover have "0 \<le> \<bar>x\<bar> / 2 ^ 53" by simp
    ultimately show ?thesis using binary64_error [of x] by linarith
  qed
qed

lemma binary64_fixed:
  assumes "x = of_int n * ulp x"
  shows "binary64_rnd x = x"
proof (cases "x = 0")
  case True
  then show ?thesis by (simp add: binary64_rnd_def)
next
  case False
  have "x / ulp x = of_int n" using assms ulp_pos [of x] by (simp add: field_simps)
  then show ?thesis using False assms by (simp add: binary64_rnd_def py_round_of_int)
qed

lemma binary64_half_integer:
  assumes "\<bar>k\<bar> \<le> 2 ^ 53"
  shows "binary64_rnd (of_int k / 2) = of_int k / 2"
proof (cases "k = 0")
  case True
  then show ?thesis by (simp add: binary64_rnd_def)
next
  case False
  define x :: real where "x = of_int k / 2"
  have x0: "x \<noteq> 0" using False by (simp add: x_def)
  have lo: "1 / 2 \<le> \<bar>x\<bar>"
  proof -
    have "1 \<le> \<bar>k\<bar>" using False by simp
    then have "1 \<le> \<bar>real_of_int k\<bar>" by linarith
    then show ?thesis by (simp add: x_def)
  qed
  have hi: "\<bar>x\<bar> \<le> 2 ^ 52"
  proof -
    have "real_of_int \<bar>k\<bar> \<le> real_of_int (2 ^ 53)" using assms by (simp only: of_int_le_iff)
    then have "\<bar>real_of_int k\<bar> \<le> 2 ^ 53" by simp
    then show ?thesis by (simp add: x_def)
  qed
  have "2 powr (- 1) \<le> \<bar>x\<bar>" using lo by (simp add: powr_minus_divide)
  then have "- 1 \<le> log 2 \<bar>x\<bar>" using x0 by (simp add: le_log_iff)
  then have e1: "- 1 \<le> \<lfloor>log 2 \<bar>x\<bar>\<rfloor>" by linarith
  then have b: "binade x = \<lfloor>log 2 \<bar>x\<bar>\<rfloor>" by (simp add: binade_def)
  have bl: "- 1 \<le> binade x" "- 1022 < binade x" using e1 unfolding b by linarith+
  have "\<bar>x\<bar> \<le> 2 powr 52" using hi by simp
  then have "log 2 \<bar>x\<bar> \<le> 52" using x0 by (simp add: log_le_iff)
  then have bu: "binade x \<le> 52" unfolding b by linarith
  have "\<exists>n. x = of_int n * ulp x"
  proof (cases "binade x \<le> 51")
    case True
    have "2 powr of_int (51 - binade x) * ulp x = 2 powr (of_int (51 - binade x) + of_int (binade x - 52))"
      by (simp only: powr_add ulp_def)
    also have "\<dots> = 2 powr (- 1)" by simp
    also have "\<dots> = 1 / 2" by (simp add: powr_minus_divide)
    finally have "of_int (2 ^ nat (51 - binade x)) * ulp x = 1 / 2"
      using True by (simp only: two_powr_int [of "51 - binade x"])
    then have "x = of_int (k * 2 ^ nat (51 - binade x)) * ulp x"
      by (simp add: x_def algebra_simps)
    then show ?thesis by blast
  next
    case False
    then have e: "binade x = 52" using bu by simp
    have "2 powr of_int (binade x) \<le> \<bar>x\<bar>" by (rule binade_lower [OF x0 bl(2)])
    then have "2 powr 52 \<le> \<bar>x\<bar>" by (simp add: e)
    then have "2 ^ 52 \<le> \<bar>x\<bar>" by simp
    then have "\<bar>x\<bar> = 2 ^ 52" using hi by simp
    then have "\<bar>real_of_int k\<bar> = 2 ^ 53" by (simp add: x_def)
    then have "real_of_int \<bar>k\<bar> = real_of_int (2 ^ 53)" by simp
    then have "\<bar>k\<bar> = 2 ^ 53" by (simp only: of_int_eq_iff)
    then have "k = 2 ^ 53 \<or> k = - (2 ^ 53)" by (simp add: abs_if split: if_splits)
    then have "x = of_int (2 ^ 52) \<or> x = of_int (- (2 ^ 52))" by (auto simp: x_def)
    moreover have "ulp x = 1" by (simp add: ulp_def e)
    ultimately show ?thesis by (metis mult.right_neutral)
  qed
  then obtain n where "x = of_int n * ulp x" by blast
  then have "binary64_rnd x = x" by (rule binary64_fixed)
  then show ?thesis by (simp only: x_def)
qed

lemma round_to_nearest_binary64: "round_to_nearest binary64_rnd"
  unfolding round_to_nearest_def
  using binary64_nearest binary64_half_integer binary64_relative_error by blast

lemma binary64_rnd_small: "binary64_rnd 0 = 0" "binary64_rnd 1 = 1"
  using binary64_half_integer [of 0] binary64_half_integer [of 2] by simp_all

lemma sign_symmetric_binary64: "sign_symmetric binary64_arith"
  by (simp add: sign_symmetric_def binary64_arith_def binary64_rnd_small binary64_rnd_minus
      atan2_def)

text \<open>Evaluation of the rounding at a number whose binade is known.\<close>

lemma binary64_rnd_eval:
  assumes "- 1022 \<le> e" "2 powr of_int e \<le> \<bar>x\<bar>" "\<bar>x\<bar> < 2 powr of_int (e + 1)"
    and "u = 2 powr of_int (e - 52)"
  shows "binary64_rnd x = of_int (py_round (x / u)) * u"
proof -
  have "binade x = e" by (rule binade_eq [OF assms(1,2,3)])
  then have "ulp x = u" by (simp add: ulp_def assms(4))
  moreover have "x \<noteq> 0" using assms(2) powr_gt_zero [of 2 "of_int e"] by auto
  ultimately show ?thesis by (simp add: binary64_rnd_def)
qed

lemma double_0695_times_100: "binary64_rnd (double_0695 * 100) = 139 / 2"
proof -
  have "binary64_rnd (double_0695 * 100)
          = of_int (py_round (double_0695 * 100 / (1 / 2 ^ 46))) * (1 / 2 ^ 46)"
    by (rule binary64_rnd_eval [of 6]) (simp_all add: powr_minus_divide double_0695_def)
  also have "\<dots> = 139 / 2" by (simp add: py_round_def Let_def double_0695_def)
  finally show ?thesis .
qed

lemma double_0695_times_10000:
  "binary64_rnd (double_0695 * 10 ^ 4) = 7641605813043199 / 2 ^ 40"
proof -
  have "binary64_rnd (double_0695 * 10 ^ 4)
          = of_int (py_round (double_0695 * 10 ^ 4 / (1 / 2 ^ 40))) * (1 / 2 ^ 40)"
    by (rule binary64_rnd_eval [of 12]) (simp_all add: powr_minus_divide double_0695_def)
  also have "\<dots> = 7641605813043199 / 2 ^ 40" by (simp add: py_round_def Let_def double_0695_def)
  finally show ?thesis .
qed

lemma py_round_6950: "py_round (7641605813043199 / 2 ^ 40) = 6950"
  by (simp add: py_round_def Let_def)

lemma double_0695_is_double: "binary64_rnd (of_int 6950 / 10 ^ 4) = double_0695"
proof -
  have "binary64_rnd (of_int 6950 / 10 ^ 4)
          = of_int (py_round (of_int 6950 / 10 ^ 4 / (1 / 2 ^ 53))) * (1 / 2 ^ 53)"
    by (rule binary64_rnd_eval [of "- 1"]) (simp_all add: powr_minus_divide)
  also have "\<dots> = double_0695" by (simp add: py_round_def Let_def double_0695_def)
  finally show ?thesis .
qed

lemma double_0005_times_100: "binary64_rnd (double_0005 * 100) = 1 / 2"
proof -
  have "binary64_rnd (double_0005 * 100)
          = of_int (py_round (double_0005 * 100 / (1 / 2 ^ 53))) * (1 / 2 ^ 53)"
    by (rule binary64_rnd_eval [of "- 1"]) (simp_all add: powr_minus_divide double_0005_def)
  also have "\<dots> = 1 / 2" by (simp add: py_round_def Let_def double_0005_def)
  finally show ?thesis .
qed

lemma binary64_ops:
  "f_mul binary64_arith x y = binary64_rnd (x * y)"
  "f_div binary64_arith x y = binary64_rnd (x / y)"
  by (simp_all add: f_mul_def f_div_def binary64_arith_def)

lemma score_response_double_0695:
  "score_response binary64_arith double_0695 =
     \<lparr>risk_score = 70, probability = double_0695, risk_level = ''High'',
      decision = ''Block''\<rparr>"
proof -
  have 1: "py_round (f_mul binary64_arith double_0695 100) = 70"
    by (simp only: binary64_ops double_0695_times_100 py_round_ties)
  have 2: "py_round_ndigits binary64_arith double_0695 4 = double_0695"
    by (simp only: py_round_ndigits_def binary64_ops double_0695_times_10000 py_round_6950
        double_0695_is_double)
  have 3: "risk_bucket 70 = (''High'', ''Block'')" by (simp add: risk_bucket_def)
  show ?thesis
    by (simp only: score_response_def Let_def 1 2 3 prod.case)
qed

lemma score_double_0005:
  "risk_score (score_response binary64_arith double_0005) = 0"
  by (rule score_ties_to_even) (simp only: binary64_ops double_0005_times_100)

text \<open>The whole handler in double arithmetic, on a request whose merchant sits at the
  coordinates of its city, so that the distance is 0 whatever the library: the
  probability 0.695 scores 70.\<close>

lemma build_features_colocated:
  "build_features binary64_arith (sample_state p) sample_now colocated_txn =
     Inr (feature_dict colocated_txn ''SC'' 29209 34 (- 81) 333497 34 (- 81) 14 3 11 1 0 35 0)"
  by (simp add: build_features_def resolve_city_def resolve_merchant_def sample_state_def
      colocated_txn_def sample_now_def py_int_def Let_def
      haversine_same [OF sign_symmetric_binary64])

lemma predict_double_0695:
  "predict binary64_arith (sample_state double_0695) sample_now colocated_txn =
     (Inr \<lparr>risk_score = 70, probability = double_0695, risk_level = ''High'',
            decision = ''Block''\<rparr>,
      [[feature_dict colocated_txn ''SC'' 29209 34 (- 81) 333497 34 (- 81) 14 3 11 1 0 35 0]])"
  by (simp only: predict_sample [OF build_features_colocated] score_response_double_0695)

end
